theory Spec2Isabelle
  imports Main
begin

section \<open>librequests (requests.c): a shallow embedding\<close>

text \<open>
  The C functions of \<^verbatim>\<open>requests.c\<close> are translated one by one, under their own names.

  \<^item> A \<^verbatim>\<open>char *\<close> that holds a C string is the list of the characters before its
    terminating NUL; a raw byte buffer (the \<^verbatim>\<open>content\<close> of the write callback) is the
    list of its bytes, NUL bytes included.
  \<^item> \<^verbatim>\<open>size_t\<close> values are natural numbers (every one of them is the size of an object
    that exists in memory), \<^verbatim>\<open>int\<close> and \<^verbatim>\<open>long\<close> values are integers.
  \<^item> A failed \<^verbatim>\<open>assert\<close> aborts the process: the function returns \<open>Inl\<close>.
  \<^item> An access outside an array is not a branch of the C code: the code goes on. The
    model records it as a \<open>fault\<close> and goes on as the machine does on flat memory: the
    store is done, and a load yields what the surrounding memory holds, which the
    \<open>world\<close> supplies.
  \<^item> Whatever the code obtains from outside (the allocator, indeterminate memory, the
    host's \<^verbatim>\<open>uname\<close>, the transfer engine's conversation with the server) is a field
    of the \<open>world\<close>.
\<close>

subsection \<open>Errors, faults, results\<close>

datatype error = AssertionFailed string

text \<open>\<open>OutOfBounds obj n i\<close>: element \<open>i\<close> of the array \<open>obj\<close>, which has \<open>n\<close>
  elements, is read or written, with \<open>n \<le> i\<close>.\<close>

datatype fault = OutOfBounds string nat nat

type_synonym 'a exec = "error + (fault list \<times> 'a)"

definition ok :: "'a \<Rightarrow> 'a exec" where
  "ok x = Inr ([], x)"

definition exec_bind :: "'a exec \<Rightarrow> ('a \<Rightarrow> 'b exec) \<Rightarrow> 'b exec" where
  "exec_bind m f =
     (case m of
        Inl e \<Rightarrow> Inl e
      | Inr (fs, x) \<Rightarrow>
          (case f x of
             Inl e \<Rightarrow> Inl e
           | Inr (gs, y) \<Rightarrow> Inr (fs @ gs, y)))"

definition c_assert :: "bool \<Rightarrow> string \<Rightarrow> unit exec" where
  "c_assert b msg = (if b then ok () else Inl (AssertionFailed msg))"

subsection \<open>The data model\<close>

text \<open>\<^verbatim>\<open>REQ\<close> (requests.h): \<^verbatim>\<open>long code; char *url; char *text; size_t size;\<close>.
  \<open>url\<close> is \<open>None\<close> for a NULL pointer. \<open>req_text\<close> is the C string at \<^verbatim>\<open>text\<close>.\<close>

record REQ =
  code :: int
  url :: "string option"
  req_text :: string
  req_size :: nat

text \<open>The options of a libcurl easy handle that the code sets, and the response code
  the handle reports after a transfer (\<^verbatim>\<open>CURLINFO_RESPONSE_CODE\<close>).
  \<open>opt_writefunction\<close>: \<^verbatim>\<open>callback\<close> is installed; \<open>opt_writedata\<close>: it is handed the
  request context. A NULL header list is \<open>[]\<close>.\<close>

record CURL =
  opt_url :: "string option"
  opt_writefunction :: bool
  opt_writedata :: bool
  opt_postfields :: "string option"
  opt_httpheader :: "string list"
  opt_customrequest :: "string option"
  opt_post :: int
  opt_useragent :: "string option"
  info_response_code :: int

text \<open>What the transfer engine gets from the network for one transfer: the body, in the
  chunks it hands to the write callback, the response code it reports (0 when it has
  received none) and the result of \<^verbatim>\<open>curl_easy_perform\<close> (\<^verbatim>\<open>CURLE_OK\<close> is 0).\<close>

record response =
  chunks :: "string list"
  response_code :: int
  curlcode :: int

record world =
  can_alloc :: "nat \<Rightarrow> bool"
  junk :: string
  wild :: string
  sysname :: string
  release :: string
  respond :: "CURL \<Rightarrow> response"

text \<open>
  \<^item> \<open>can_alloc w n\<close>: a request for \<open>n\<close> bytes succeeds.
  \<^item> \<open>junk w\<close>: the C string that indeterminate memory holds (the bytes up to the first
    NUL), read where the code reads a buffer that nothing has initialised or terminated.
  \<^item> \<open>wild w\<close>: the C string that a pointer loaded from outside a \<^verbatim>\<open>char **\<close> array
    points to.
  \<^item> \<open>sysname\<close>, \<open>release\<close>: the fields of \<^verbatim>\<open>struct utsname\<close> that \<^verbatim>\<open>uname\<close> fills.
  \<^item> \<open>respond w curl\<close>: the outcome of the transfer that the handle \<open>curl\<close> describes.
\<close>

subsection \<open>The C library\<close>

definition NUL :: char where
  "NUL = CHR 0x00"

definition strlen :: "string \<Rightarrow> nat" where
  "strlen s = length s"

text \<open>\<^verbatim>\<open>strndup(p, n)\<close>: at most \<open>n\<close> bytes of the buffer, up to its first NUL.\<close>

definition strndup :: "string \<Rightarrow> nat \<Rightarrow> string" where
  "strndup buf n = takeWhile (\<lambda>c. c \<noteq> NUL) (take n buf)"

text \<open>\<^verbatim>\<open>realloc(p, n)\<close> where \<open>s\<close> is the C string at \<open>p\<close>: the first \<open>n\<close> bytes are kept.
  The string and its terminator are kept when they fit; otherwise the new block holds
  \<open>n\<close> characters and no terminator, and the string at the new address runs on into
  whatever follows the block.\<close>

definition realloc :: "world \<Rightarrow> string \<Rightarrow> nat \<Rightarrow> string" where
  "realloc w s n = (if length s < n then s else take n s @ junk w)"

text \<open>\<^verbatim>\<open>strcat(dst, src)\<close> into the array \<open>obj\<close> of \<open>cap\<close> bytes: the characters of \<open>src\<close>
  and a NUL are stored from the terminator of \<open>dst\<close> on; the last byte touched has
  index \<open>length dst + length src\<close>. \<^verbatim>\<open>strncat(dst, src, n)\<close> appends at most \<open>n\<close>
  characters.\<close>

definition strcat :: "string \<Rightarrow> nat \<Rightarrow> string \<Rightarrow> string \<Rightarrow> fault list \<times> string" where
  "strcat obj cap dst src =
     (if cap \<le> length dst + length src
      then [OutOfBounds obj cap (length dst + length src)] else [],
      dst @ src)"

definition strncat :: "string \<Rightarrow> nat \<Rightarrow> string \<Rightarrow> string \<Rightarrow> nat \<Rightarrow> fault list \<times> string" where
  "strncat obj cap dst src n = strcat obj cap dst (take n src)"

text \<open>\<^verbatim>\<open>strlen\<close> of the array \<open>obj\<close> of \<open>cap\<close> bytes that holds the C string \<open>s\<close>: the scan
  reads up to the terminator, at index \<open>length s\<close>.\<close>

definition strlen_in :: "string \<Rightarrow> nat \<Rightarrow> string \<Rightarrow> fault list \<times> nat" where
  "strlen_in obj cap s =
     (if cap \<le> length s then [OutOfBounds obj cap (length s)] else [], length s)"

text \<open>\<^verbatim>\<open>snprintf(dst, n, ...)\<close> where the format expands to \<open>s\<close>: at most \<open>n - 1\<close>
  characters and a NUL are stored; nothing is stored when \<open>n\<close> is 0, and \<open>dst\<close> keeps
  what it held.\<close>

definition snprintf :: "string \<Rightarrow> nat \<Rightarrow> string \<Rightarrow> string" where
  "snprintf dst n s = (if n = 0 then dst else take (n - 1) s)"

text \<open>\<^verbatim>\<open>arr[i]\<close> for a \<^verbatim>\<open>char **\<close> array of \<open>length arr\<close> elements.\<close>

definition rd :: "world \<Rightarrow> string \<Rightarrow> string list \<Rightarrow> int \<Rightarrow> fault list \<times> string" where
  "rd w obj arr i =
     (if 0 \<le> i \<and> i < int (length arr) then ([], arr ! nat i)
      else ([OutOfBounds obj (length arr) (nat i)], wild w))"

subsection \<open>The write callback\<close>

definition callback :: "world \<Rightarrow> string \<Rightarrow> nat \<Rightarrow> nat \<Rightarrow> REQ \<Rightarrow> (nat \<times> REQ) exec" where
  "callback w content sz nmemb userdata =
     (let real_size = sz * nmemb;
          n = req_size userdata + real_size + 1
      in if \<not> can_alloc w n then Inl (AssertionFailed ''ERROR: Memory allocation failed'')
         else
           let userdata = userdata\<lparr>req_text := realloc w (req_text userdata) n\<rparr>;
               userdata = userdata\<lparr>req_size := req_size userdata + real_size\<rparr>;
               responsetext = strndup content (sz * nmemb)
           in if \<not> can_alloc w (strlen responsetext + 1)
              then Inl (AssertionFailed ''ERROR: Memory allocation failed'')
              else
                (case strcat ''text'' n (req_text userdata) responsetext of
                   (fs, t) \<Rightarrow> Inr (fs, sz * nmemb, userdata\<lparr>req_text := t\<rparr>)))"

text \<open>The engine's side of the write callback (libcurl): each chunk of the body is
  handed to the callback as \<open>length chunk\<close> items of size 1; a return value other than
  the chunk's length stops the transfer (\<^verbatim>\<open>CURLE_WRITE_ERROR\<close>, 23). The result is the
  transfer's error code so far and the context.\<close>

fun deliver :: "world \<Rightarrow> string list \<Rightarrow> REQ \<Rightarrow> (int \<times> REQ) exec" where
  "deliver w [] req = ok (0, req)"
| "deliver w (chunk # rest) req =
     exec_bind (callback w chunk 1 (length chunk) req) (\<lambda>(ret, req).
       if ret \<noteq> length chunk then ok (23, req) else deliver w rest req)"

subsection \<open>The engine (libcurl)\<close>

text \<open>\<^verbatim>\<open>curl_easy_init\<close>: a handle with no option set.\<close>

definition curl_easy_init :: CURL where
  "curl_easy_init =
     \<lparr>opt_url = None, opt_writefunction = False, opt_writedata = False,
      opt_postfields = None, opt_httpheader = [], opt_customrequest = None,
      opt_post = 0, opt_useragent = None, info_response_code = 0\<rparr>"

text \<open>\<^verbatim>\<open>curl_slist_append\<close>: the string goes to the end of the list.\<close>

definition curl_slist_append :: "string list \<Rightarrow> string \<Rightarrow> string list" where
  "curl_slist_append slist s = slist @ [s]"

text \<open>\<^verbatim>\<open>curl_easy_escape\<close>: the letters, the digits and \<^verbatim>\<open>- . _ ~\<close> stay, every other
  byte becomes \<^verbatim>\<open>%XX\<close> with two upper-case hexadecimal digits.\<close>

definition unreserved :: "char \<Rightarrow> bool" where
  "unreserved c =
     (c \<in> set ''ABCDEFGHIJKLMNOPQRSTUVWXYZabcdefghijklmnopqrstuvwxyz0123456789-._~'')"

definition hex_digit :: "nat \<Rightarrow> char" where
  "hex_digit d = ''0123456789ABCDEF'' ! (d mod 16)"

definition escape_byte :: "char \<Rightarrow> string" where
  "escape_byte c =
     (if unreserved c then [c]
      else [CHR ''%'', hex_digit (of_char c div 16), hex_digit (of_char c mod 16)])"

definition curl_easy_escape :: "CURL \<Rightarrow> string \<Rightarrow> nat \<Rightarrow> string" where
  "curl_easy_escape curl s len = concat (map escape_byte (take len s))"

text \<open>\<^verbatim>\<open>curl_easy_perform\<close>: the body goes through the write callback to the request
  context when both are installed (to standard output otherwise); the handle then
  reports the response code. The result is the transfer's error code, the handle and
  the context.\<close>

definition curl_easy_perform :: "world \<Rightarrow> CURL \<Rightarrow> REQ \<Rightarrow> (int \<times> CURL \<times> REQ) exec" where
  "curl_easy_perform w curl req =
     (let r = respond w curl
      in exec_bind
           (if opt_writefunction curl \<and> opt_writedata curl then deliver w (chunks r) req
            else ok (0, req))
           (\<lambda>(rc, req).
              ok (if rc = 0 then curlcode r else rc,
                  curl\<lparr>info_response_code := response_code r\<rparr>, req)))"

subsection \<open>requests.c\<close>

definition requests_init :: "world \<Rightarrow> string option \<Rightarrow> (CURL \<times> REQ) exec" where
  "requests_init w u =
     (let req = \<lparr>code = 0, url = u, req_text = [], req_size = 0\<rparr>
      in exec_bind (c_assert (can_alloc w 1) ''ERROR: Memory allocation failed'') (\<lambda>_.
         ok (curl_easy_init, req)))"

definition common_opt :: "CURL \<Rightarrow> REQ \<Rightarrow> CURL" where
  "common_opt curl req =
     (let curl = curl\<lparr>opt_url := url req\<rparr>;
          curl = curl\<lparr>opt_writefunction := True\<rparr>;
          curl = curl\<lparr>opt_writedata := True\<rparr>
      in curl)"

definition requests_get :: "world \<Rightarrow> CURL \<Rightarrow> REQ \<Rightarrow> (CURL \<times> REQ) exec" where
  "requests_get w curl req =
     exec_bind (c_assert (url req \<noteq> None) ''ERROR: No URL provided'') (\<lambda>_.
       let curl = common_opt curl req;
           curl = curl\<lparr>opt_writefunction := True\<rparr>;
           curl = curl\<lparr>opt_writedata := True\<rparr>
       in exec_bind (curl_easy_perform w curl req) (\<lambda>(rc, curl, req).
            let code = info_response_code curl
            in ok (curl, req\<lparr>code := code\<rparr>)))"

text \<open>The first loop of \<^verbatim>\<open>url_encode\<close>: the sum of the lengths.\<close>

function total_loop ::
  "world \<Rightarrow> string list \<Rightarrow> int \<Rightarrow> int \<Rightarrow> fault list \<times> nat \<Rightarrow> fault list \<times> nat" where
  "total_loop w data data_size i acc =
     (if i < data_size then
        (case rd w ''data'' data i of
           (f, tmp) \<Rightarrow>
             total_loop w data data_size (i + 1) (fst acc @ f, snd acc + strlen tmp))
      else acc)"
  by pat_completeness auto
termination
  by (relation "measure (\<lambda>(w, data, data_size, i, acc). nat (data_size - i))") auto

text \<open>The second loop: the pairs, appended to \<^verbatim>\<open>encoded\<close>, an array of \<open>total_size\<close>
  bytes.\<close>

function pair_loop ::
  "world \<Rightarrow> string list \<Rightarrow> int \<Rightarrow> nat \<Rightarrow> int \<Rightarrow> fault list \<times> string \<Rightarrow> fault list \<times> string"
  where
  "pair_loop w data data_size total_size i acc =
     (if i < data_size then
        (case rd w ''data'' data i of
           (f1, key) \<Rightarrow>
        (case rd w ''data'' data (i + 1) of
           (f2, val) \<Rightarrow>
             let offset = (if i = 0 then 2 else 3);
                 term_size = strlen key + strlen val + offset;
                 term = (if i = 0 then snprintf (junk w) term_size (key @ ''='' @ val)
                         else snprintf (junk w) term_size (''&'' @ key @ ''='' @ val))
             in (case strncat ''encoded'' total_size (snd acc) term (strlen term) of
                   (f3, encoded) \<Rightarrow>
                     pair_loop w data data_size total_size (i + 2)
                       (fst acc @ f1 @ f2 @ f3, encoded))))
      else acc)"
  by pat_completeness auto
termination
  by (relation "measure (\<lambda>(w, data, data_size, total_size, i, acc). nat (data_size - i))")
    auto

definition url_encode :: "world \<Rightarrow> CURL \<Rightarrow> string list \<Rightarrow> int \<Rightarrow> fault list \<times> string" where
  "url_encode w curl data data_size =
     (case total_loop w data data_size 0 ([], 0) of
        (f0, total_size) \<Rightarrow>
          let encoded = snprintf (junk w) total_size []
          in (case pair_loop w data data_size total_size 0 (f0, encoded) of
                (f1, encoded) \<Rightarrow>
                  (case strlen_in ''encoded'' total_size encoded of
                     (f2, len) \<Rightarrow> (f1 @ f2, curl_easy_escape curl encoded len))))"

definition user_agent :: "world \<Rightarrow> string exec" where
  "user_agent w =
     (let ua_size = 3;
          basic = ''librequests/0.1'';
          ua_size = ua_size + strlen basic;
          kernel = sysname w;
          ua_size = ua_size + strlen kernel;
          version = release w;
          ua_size = ua_size + strlen version
      in exec_bind (c_assert (can_alloc w ua_size) ''ERROR: Memory allocation failed'') (\<lambda>_.
         ok (snprintf (junk w) ua_size (basic @ '' '' @ kernel @ ''/'' @ version))))"

text \<open>The loop of \<^verbatim>\<open>requests_pt\<close> over the custom headers.\<close>

function headers_loop ::
  "world \<Rightarrow> string list \<Rightarrow> int \<Rightarrow> int \<Rightarrow> fault list \<times> string list \<Rightarrow> fault list \<times> string list"
  where
  "headers_loop w headers headers_size i acc =
     (if i < headers_size then
        (case rd w ''headers'' headers i of
           (f, h) \<Rightarrow>
             headers_loop w headers headers_size (i + 1)
               (fst acc @ f, curl_slist_append (snd acc) h))
      else acc)"
  by pat_completeness auto
termination
  by (relation "measure (\<lambda>(w, headers, headers_size, i, acc). nat (headers_size - i))") auto

text \<open>\<open>data\<close> and \<open>headers\<close> are \<open>None\<close> for NULL. In C, \<^verbatim>\<open>data_size % 2 == 0\<close> holds of
  the even numbers, negative ones included, as \<open>data_size mod 2 = 0\<close> does.\<close>

definition requests_pt ::
  "world \<Rightarrow> CURL \<Rightarrow> REQ \<Rightarrow> string list option \<Rightarrow> int \<Rightarrow> string list option \<Rightarrow> int \<Rightarrow> int
     \<Rightarrow> (CURL \<times> REQ) exec" where
  "requests_pt w curl req data data_size headers headers_size put_flag =
     exec_bind (user_agent w) (\<lambda>ua.
     exec_bind (c_assert (put_flag = 0 \<or> put_flag = 1) ''ERROR: Invalid PUT request flag'') (\<lambda>_.
     exec_bind
       (case data of
          Some d \<Rightarrow>
            exec_bind (c_assert (data_size mod 2 = 0) ''ERROR: Data size must be even'') (\<lambda>_.
            exec_bind (Inr (url_encode w curl d data_size)) (\<lambda>encoded.
              ok ([], curl\<lparr>opt_postfields := Some encoded\<rparr>)))
        | None \<Rightarrow>
            let slist = curl_slist_append [] ''Content-Length: 0''
            in ok (slist, if headers = None then curl\<lparr>opt_httpheader := slist\<rparr> else curl))
       (\<lambda>(slist, curl).
     exec_bind
       (case headers of
          Some hs \<Rightarrow>
            exec_bind (Inr (headers_loop w hs headers_size 0 ([], slist))) (\<lambda>slist.
              ok (curl\<lparr>opt_httpheader := slist\<rparr>))
        | None \<Rightarrow> ok curl)
       (\<lambda>curl.
     let curl = common_opt curl req;
         curl = (if put_flag \<noteq> 0 then curl\<lparr>opt_customrequest := Some ''PUT''\<rparr>
                 else curl\<lparr>opt_post := 1\<rparr>);
         curl = curl\<lparr>opt_useragent := Some ua\<rparr>
     in exec_bind (curl_easy_perform w curl req) (\<lambda>(rc, curl, req).
          let code = info_response_code curl
          in ok (curl, req\<lparr>code := code\<rparr>))))))"

definition requests_post :: "world \<Rightarrow> CURL \<Rightarrow> REQ \<Rightarrow> string list option \<Rightarrow> int \<Rightarrow> (CURL \<times> REQ) exec"
  where
  "requests_post w curl req data data_size = requests_pt w curl req data data_size None 0 0"

definition requests_put :: "world \<Rightarrow> CURL \<Rightarrow> REQ \<Rightarrow> string list option \<Rightarrow> int \<Rightarrow> (CURL \<times> REQ) exec"
  where
  "requests_put w curl req data data_size = requests_pt w curl req data data_size None 0 1"

definition requests_post_headers ::
  "world \<Rightarrow> CURL \<Rightarrow> REQ \<Rightarrow> string list option \<Rightarrow> int \<Rightarrow> string list option \<Rightarrow> int
     \<Rightarrow> (CURL \<times> REQ) exec" where
  "requests_post_headers w curl req data data_size headers headers_size =
     requests_pt w curl req data data_size headers headers_size 0"

definition requests_put_headers ::
  "world \<Rightarrow> CURL \<Rightarrow> REQ \<Rightarrow> string list option \<Rightarrow> int \<Rightarrow> string list option \<Rightarrow> int
     \<Rightarrow> (CURL \<times> REQ) exec" where
  "requests_put_headers w curl req data data_size headers headers_size =
     requests_pt w curl req data data_size headers headers_size 1"

subsection \<open>The joined string, as the specification words it\<close>

text \<open>\<^verbatim>\<open>key0=value0&key1=value1&...\<close>: each key is joined to its value with \<^verbatim>\<open>=\<close>, and
  successive pairs with \<^verbatim>\<open>&\<close>, in input order. This definition follows the
  specification; \<open>url_encode\<close> above follows the code.\<close>

fun join_pairs :: "string list \<Rightarrow> string" where
  "join_pairs (k # v # rest) =
     k @ ''='' @ v @ (if rest = [] then [] else ''&'' @ join_pairs rest)"
| "join_pairs _ = []"

subsection \<open>Auxiliary definitions of the proofs\<close>

text \<open>Faults that happened before a computation.\<close>

definition add_faults :: "fault list \<Rightarrow> 'a exec \<Rightarrow> 'a exec" where
  "add_faults fs m = (case m of Inl e \<Rightarrow> Inl e | Inr (gs, y) \<Rightarrow> Inr (fs @ gs, y))"

text \<open>One turn of the second loop of \<open>url_encode\<close>: the term it builds, and what it
  does to the faults and to \<^verbatim>\<open>encoded\<close>.\<close>

definition pair_term :: "world \<Rightarrow> string list \<Rightarrow> int \<Rightarrow> string" where
  "pair_term w data i =
     (if i = 0 then [] else ''&'') @ snd (rd w ''data'' data i) @ ''='' @
     snd (rd w ''data'' data (i + 1))"

definition pair_step ::
  "world \<Rightarrow> string list \<Rightarrow> nat \<Rightarrow> int \<Rightarrow> fault list \<times> string \<Rightarrow> fault list \<times> string" where
  "pair_step w data ts i acc =
     (fst acc @ fst (rd w ''data'' data i) @ fst (rd w ''data'' data (i + 1)) @
        fst (strcat ''encoded'' ts (snd acc) (pair_term w data i)),
      snd acc @ pair_term w data i)"

fun amp_pairs :: "string list \<Rightarrow> string" where
  "amp_pairs (k # v # rest) = ''&'' @ k @ ''='' @ v @ amp_pairs rest"
| "amp_pairs _ = []"

subsection \<open>Concrete inputs\<close>

text \<open>A host on which every allocation succeeds, and a server that answers 200 with
  the body \<^verbatim>\<open>abcde\<close> in three chunks, the second one empty.\<close>

definition host :: world where
  "host =
     \<lparr>can_alloc = (\<lambda>n. True), junk = ''X'', wild = ''?'', sysname = ''Linux'',
      release = ''6.1'',
      respond = (\<lambda>curl. \<lparr>chunks = [''ab'', [], ''cde''], response_code = 200, curlcode = 0\<rparr>)\<rparr>"

text \<open>The same host, on a connection that breaks after the status line and two bytes of
  the body: the transfer fails (\<^verbatim>\<open>CURLE_PARTIAL_FILE\<close>, 18) and the engine reports the
  response code it has received.\<close>

definition flaky :: world where
  "flaky =
     \<lparr>can_alloc = (\<lambda>n. True), junk = ''X'', wild = ''?'', sysname = ''Linux'',
      release = ''6.1'',
      respond = (\<lambda>curl. \<lparr>chunks = [''ab''], response_code = 200, curlcode = 18\<rparr>)\<rparr>"

text \<open>A request context as \<open>requests_init\<close> leaves it.\<close>

definition ctx :: REQ where
  "ctx = \<lparr>code = 0, url = Some ''http://example.org/'', req_text = [], req_size = 0\<rparr>"

section \<open>Lemmas\<close>

declare total_loop.simps [simp del]
declare pair_loop.simps [simp del]
declare headers_loop.simps [simp del]

subsection \<open>Results, faults and assertions\<close>

lemma exec_bind_Inr:
  "exec_bind m f = Inr (fs, y) \<longleftrightarrow>
     (\<exists>f1 x f2. m = Inr (f1, x) \<and> f x = Inr (f2, y) \<and> fs = f1 @ f2)"
  by (auto simp: exec_bind_def split: sum.splits prod.splits)

lemma exec_bind_Inl:
  "exec_bind m f = Inl e \<longleftrightarrow> (m = Inl e \<or> (\<exists>f1 x. m = Inr (f1, x) \<and> f x = Inl e))"
  by (auto simp: exec_bind_def split: sum.splits prod.splits)

lemma ok_Inr: "ok x = Inr (fs, y) \<longleftrightarrow> fs = [] \<and> y = x"
  by (auto simp: ok_def)

lemma add_faults_simps:
  "add_faults [] m = m"
  "add_faults fs (Inl e) = Inl e"
  "add_faults fs (Inr (gs, y)) = Inr (fs @ gs, y)"
  "add_faults fs (add_faults gs m) = add_faults (fs @ gs) m"
  by (auto simp: add_faults_def split: sum.splits)

lemma add_faults_Inr:
  "add_faults F m = Inr (fs, y) \<longleftrightarrow> (\<exists>g. m = Inr (g, y) \<and> fs = F @ g)"
  by (auto simp: add_faults_def split: sum.splits)

lemma add_faults_Inl: "add_faults F m = Inl e \<longleftrightarrow> m = Inl e"
  by (auto simp: add_faults_def split: sum.splits)

lemma exec_bind_add_faults: "exec_bind (Inr p) f = add_faults (fst p) (f (snd p))"
  by (cases p) (simp add: exec_bind_def add_faults_def)

lemma exec_bind_add_faults_left:
  "exec_bind (add_faults fs m) f = add_faults fs (exec_bind m f)"
  by (auto simp: exec_bind_def add_faults_def split: sum.splits)

lemma exec_bind_ok: "exec_bind (ok x) f = f x"
  by (simp add: exec_bind_def ok_def split: sum.splits)

lemma exec_bind_Inl_left: "exec_bind (Inl e) f = Inl e"
  by (simp add: exec_bind_def)

lemma c_assert_simps:
  "c_assert True msg = ok ()"
  "c_assert False msg = Inl (AssertionFailed msg)"
  by (simp_all add: c_assert_def)

subsection \<open>The callback and the delivery of a body\<close>

lemma callback_frame:
  assumes "callback w content sz nmemb r = Inr (fs, n, r')"
  shows "code r' = code r \<and> url r' = url r \<and> n = sz * nmemb"
  using assms by (auto simp: callback_def Let_def strcat_def split: if_splits)

lemma callback_Inl:
  assumes "callback w content sz nmemb r = Inl e"
  shows "e = AssertionFailed ''ERROR: Memory allocation failed''"
  using assms by (auto simp: callback_def Let_def strcat_def split: if_splits)

lemma deliver_frame:
  "deliver w cs r = Inr (fs, rc, r') \<Longrightarrow> code r' = code r \<and> url r' = url r"
proof (induction cs arbitrary: r fs)
  case Nil
  then show ?case by (simp add: ok_Inr)
next
  case (Cons c cs)
  from Cons.prems obtain f1 n r1 f2 where
    cb: "callback w c 1 (length c) r = Inr (f1, n, r1)" and
    rest: "(if n \<noteq> length c then ok (23, r1) else deliver w cs r1) = Inr (f2, rc, r')"
    by (auto simp: exec_bind_Inr)
  from callback_frame[OF cb] have fr: "code r1 = code r" "url r1 = url r" "n = length c"
    by simp_all
  with rest have "deliver w cs r1 = Inr (f2, rc, r')" by simp
  from Cons.IH[OF this] fr show ?case by simp
qed

lemma deliver_Inl:
  "deliver w cs r = Inl e \<Longrightarrow> e = AssertionFailed ''ERROR: Memory allocation failed''"
proof (induction cs arbitrary: r)
  case Nil
  then show ?case by (simp add: ok_def)
next
  case (Cons c cs)
  from Cons.prems consider
    (here) "callback w c 1 (length c) r = Inl e"
  | (later) f1 n r1 where "callback w c 1 (length c) r = Inr (f1, n, r1)"
      "(if n \<noteq> length c then ok (23, r1) else deliver w cs r1) = Inl e"
    by (auto simp: exec_bind_Inl)
  then show ?case
  proof cases
    case here
    then show ?thesis by (rule callback_Inl)
  next
    case later
    then have "deliver w cs r1 = Inl e" by (simp add: ok_def split: if_splits)
    then show ?thesis by (rule Cons.IH)
  qed
qed

lemma strndup_no_NUL: "NUL \<notin> set c \<Longrightarrow> strndup c (length c) = c"
  by (auto simp: strndup_def takeWhile_eq_all_conv)

lemma callback_text:
  assumes "can_alloc w (req_size r + length c + 1)" "can_alloc w (length c + 1)"
    and "NUL \<notin> set c" and "req_size r = length (req_text r)"
  shows "callback w c 1 (length c) r =
           Inr ([], length c, r\<lparr>req_text := req_text r @ c, req_size := req_size r + length c\<rparr>)"
  using assms
  by (simp add: callback_def Let_def strcat_def realloc_def strndup_no_NUL strlen_def)

lemma deliver_text:
  assumes "\<forall>n. can_alloc w n"
  shows "\<forall>c \<in> set cs. NUL \<notin> set c \<Longrightarrow> req_size r = length (req_text r) \<Longrightarrow>
    deliver w cs r =
      Inr ([], 0, r\<lparr>req_text := req_text r @ concat cs,
                     req_size := req_size r + length (concat cs)\<rparr>)"
proof (induction cs arbitrary: r)
  case Nil
  then show ?case by (simp add: ok_def)
next
  case (Cons c cs)
  let ?r1 = "r\<lparr>req_text := req_text r @ c, req_size := req_size r + length c\<rparr>"
  have cb: "callback w c 1 (length c) r = Inr ([], length c, ?r1)"
    using Cons.prems assms by (intro callback_text) auto
  have inv: "req_size ?r1 = length (req_text ?r1)" using Cons.prems by simp
  have "deliver w cs ?r1 = Inr ([], 0, ?r1\<lparr>req_text := req_text ?r1 @ concat cs,
                     req_size := req_size ?r1 + length (concat cs)\<rparr>)"
    using Cons.prems by (intro Cons.IH inv) auto
  then show ?case using cb by (simp add: exec_bind_def)
qed

subsection \<open>The executors\<close>

lemma user_agent_eq:
  "user_agent w =
     (if can_alloc w (18 + length (sysname w) + length (release w))
      then Inr ([], ''librequests/0.1 '' @ sysname w @ ''/'' @ release w)
      else Inl (AssertionFailed ''ERROR: Memory allocation failed''))"
  by (simp add: user_agent_def Let_def exec_bind_def c_assert_def ok_def strlen_def
        snprintf_def ac_simps)

lemma headers_loop_eq:
  "headers_loop w h n i acc =
     (fst acc @ concat (map (\<lambda>j. fst (rd w ''headers'' h j)) [i..n - 1]),
      snd acc @ map (\<lambda>j. snd (rd w ''headers'' h j)) [i..n - 1])"
proof (induction w h n i acc rule: headers_loop.induct)
  case (1 w h n i acc)
  show ?case
  proof (cases "i < n")
    case True
    then have up: "[i..n - 1] = i # [i + 1..n - 1]"
      by (simp add: upto_rec1)
    obtain f x where rdi: "rd w ''headers'' h i = (f, x)" by (cases "rd w ''headers'' h i")
    from "1.IH"[OF True rdi[symmetric]] True rdi up show ?thesis
      by (subst headers_loop.simps) (simp add: curl_slist_append_def)
  next
    case False
    then show ?thesis by (subst headers_loop.simps) simp
  qed
qed

text \<open>The tail that both executors share: the transfer, then the status code.\<close>

lemma transfer_Inr:
  assumes "opt_writefunction cfg" "opt_writedata cfg"
  shows "exec_bind (curl_easy_perform w cfg req)
           (\<lambda>(rc, curl, req). ok (curl, req\<lparr>code := info_response_code curl\<rparr>))
         = Inr (fs, c', r') \<longleftrightarrow>
         (\<exists>rc mid. deliver w (chunks (respond w cfg)) req = Inr (fs, rc, mid) \<and>
            c' = cfg\<lparr>info_response_code := response_code (respond w cfg)\<rparr> \<and>
            r' = mid\<lparr>code := response_code (respond w cfg)\<rparr>)"
proof (cases "deliver w (chunks (respond w cfg)) req")
  case (Inl e)
  then show ?thesis
    using assms by (simp add: curl_easy_perform_def Let_def exec_bind_def)
next
  case (Inr p)
  obtain f rc0 mid where p: "p = (f, rc0, mid)" by (cases p) auto
  show ?thesis
    using assms by (auto simp: curl_easy_perform_def Let_def exec_bind_def ok_def Inr p)
qed

lemma transfer_Inl:
  assumes "exec_bind (curl_easy_perform w cfg req)
           (\<lambda>(rc, curl, req). ok (curl, req\<lparr>code := info_response_code curl\<rparr>)) = Inl e"
  shows "e = AssertionFailed ''ERROR: Memory allocation failed''"
  using assms
  by (auto simp: curl_easy_perform_def Let_def exec_bind_Inl ok_def
        split: prod.splits if_splits dest: deliver_Inl)

lemma requests_get_eq:
  "requests_get w curl req =
     (if url req = None then Inl (AssertionFailed ''ERROR: No URL provided'')
      else
        exec_bind
          (curl_easy_perform w
             (curl\<lparr>opt_url := url req, opt_writefunction := True, opt_writedata := True\<rparr>) req)
          (\<lambda>(rc, curl, req). ok (curl, req\<lparr>code := info_response_code curl\<rparr>)))"
  by (simp add: requests_get_def c_assert_def exec_bind_ok exec_bind_Inl_left common_opt_def
        Let_def)

lemma requests_get_Inr:
  assumes "requests_get w curl req = Inr (fs, c', r')"
  shows "\<exists>rc mid.
     deliver w (chunks (respond w (c'\<lparr>info_response_code := info_response_code curl\<rparr>))) req
       = Inr (fs, rc, mid) \<and>
     c' = curl\<lparr>opt_url := url req, opt_writefunction := True, opt_writedata := True,
               info_response_code :=
                 response_code (respond w (c'\<lparr>info_response_code := info_response_code curl\<rparr>))\<rparr> \<and>
     r' = mid\<lparr>code := response_code (respond w (c'\<lparr>info_response_code := info_response_code curl\<rparr>))\<rparr>"
proof -
  let ?cfg = "curl\<lparr>opt_url := url req, opt_writefunction := True, opt_writedata := True\<rparr>"
  from assms have
    "exec_bind (curl_easy_perform w ?cfg req)
       (\<lambda>(rc, curl, req). ok (curl, req\<lparr>code := info_response_code curl\<rparr>))
     = Inr (fs, c', r')"
    by (simp add: requests_get_eq split: if_splits)
  then obtain rc mid where
    d: "deliver w (chunks (respond w ?cfg)) req = Inr (fs, rc, mid)" and
    c: "c' = ?cfg\<lparr>info_response_code := response_code (respond w ?cfg)\<rparr>" and
    r: "r' = mid\<lparr>code := response_code (respond w ?cfg)\<rparr>"
    by (subst (asm) transfer_Inr) auto
  have cfg_eq: "c'\<lparr>info_response_code := info_response_code curl\<rparr> = ?cfg"
    by (simp add: c)
  show ?thesis
    unfolding cfg_eq using d c r by auto
qed

lemma requests_pt_eq:
  "requests_pt w curl req data ds hdrs hs pf =
     (if \<not> can_alloc w (18 + length (sysname w) + length (release w))
      then Inl (AssertionFailed ''ERROR: Memory allocation failed'')
      else if \<not> (pf = 0 \<or> pf = 1) then Inl (AssertionFailed ''ERROR: Invalid PUT request flag'')
      else if data \<noteq> None \<and> ds mod 2 \<noteq> 0
      then Inl (AssertionFailed ''ERROR: Data size must be even'')
      else
        add_faults
          ((case data of Some d \<Rightarrow> fst (url_encode w curl d ds) | None \<Rightarrow> [])
           @ (case hdrs of None \<Rightarrow> []
              | Some h \<Rightarrow> concat (map (\<lambda>j. fst (rd w ''headers'' h j)) [0..hs - 1])))
          (exec_bind
            (curl_easy_perform w
               \<lparr>opt_url = url req, opt_writefunction = True, opt_writedata = True,
                opt_postfields =
                  (case data of Some d \<Rightarrow> Some (snd (url_encode w curl d ds))
                   | None \<Rightarrow> opt_postfields curl),
                opt_httpheader =
                  (case data of
                     None \<Rightarrow> [''Content-Length: 0'']
                   | Some d \<Rightarrow> (case hdrs of None \<Rightarrow> opt_httpheader curl | Some h \<Rightarrow> []))
                  @ (case hdrs of None \<Rightarrow> []
                     | Some h \<Rightarrow> map (\<lambda>j. snd (rd w ''headers'' h j)) [0..hs - 1]),
                opt_customrequest =
                  (if pf \<noteq> 0 then Some ''PUT'' else opt_customrequest curl),
                opt_post = (if pf \<noteq> 0 then opt_post curl else 1),
                opt_useragent =
                  Some (''librequests/0.1 '' @ sysname w @ ''/'' @ release w),
                info_response_code = info_response_code curl\<rparr>
               req)
            (\<lambda>(rc, curl, req). ok (curl, req\<lparr>code := info_response_code curl\<rparr>))))"
proof (cases curl)
  case (fields u wf wd pfl hh cr po uag irc)
  show ?thesis
    unfolding requests_pt_def user_agent_eq fields
    by (cases data; cases hdrs; cases "pf = 0"; cases "pf = 1";
        cases "can_alloc w (18 + length (sysname w) + length (release w))";
        cases "ds mod 2 = 0")
      (simp_all add: exec_bind_ok exec_bind_Inl_left exec_bind_add_faults c_assert_simps
        add_faults_simps common_opt_def Let_def curl_slist_append_def headers_loop_eq
        exec_bind_add_faults_left
        del: upto.simps)
qed

lemma requests_pt_Inr:
  assumes "requests_pt w curl req data ds hdrs hs pf = Inr (fs, c', r')"
  shows "\<exists>f2 rc mid.
     deliver w (chunks (respond w (c'\<lparr>info_response_code := info_response_code curl\<rparr>))) req
       = Inr (f2, rc, mid) \<and>
     r' = mid\<lparr>code := response_code (respond w (c'\<lparr>info_response_code := info_response_code curl\<rparr>))\<rparr> \<and>
     info_response_code c' =
       response_code (respond w (c'\<lparr>info_response_code := info_response_code curl\<rparr>))"
    and "opt_url c' = url req"
    and "opt_postfields c' =
           (case data of Some d \<Rightarrow> Some (snd (url_encode w curl d ds))
            | None \<Rightarrow> opt_postfields curl)"
    and "opt_httpheader c' =
           (case data of
              None \<Rightarrow> [''Content-Length: 0'']
            | Some d \<Rightarrow> (case hdrs of None \<Rightarrow> opt_httpheader curl | Some h \<Rightarrow> []))
           @ (case hdrs of None \<Rightarrow> []
              | Some h \<Rightarrow> map (\<lambda>j. snd (rd w ''headers'' h j)) [0..hs - 1])"
    and "opt_customrequest c' = (if pf \<noteq> 0 then Some ''PUT'' else opt_customrequest curl)"
    and "opt_post c' = (if pf \<noteq> 0 then opt_post curl else 1)"
    and "opt_useragent c' = Some (''librequests/0.1 '' @ sysname w @ ''/'' @ release w)"
    and "pf = 0 \<or> pf = 1"
proof -
  let ?F = "(case data of Some d \<Rightarrow> fst (url_encode w curl d ds) | None \<Rightarrow> [])
           @ (case hdrs of None \<Rightarrow> []
              | Some h \<Rightarrow> concat (map (\<lambda>j. fst (rd w ''headers'' h j)) [0..hs - 1]))"
  let ?cfg = "\<lparr>opt_url = url req, opt_writefunction = True, opt_writedata = True,
                opt_postfields =
                  (case data of Some d \<Rightarrow> Some (snd (url_encode w curl d ds))
                   | None \<Rightarrow> opt_postfields curl),
                opt_httpheader =
                  (case data of
                     None \<Rightarrow> [''Content-Length: 0'']
                   | Some d \<Rightarrow> (case hdrs of None \<Rightarrow> opt_httpheader curl | Some h \<Rightarrow> []))
                  @ (case hdrs of None \<Rightarrow> []
                     | Some h \<Rightarrow> map (\<lambda>j. snd (rd w ''headers'' h j)) [0..hs - 1]),
                opt_customrequest =
                  (if pf \<noteq> 0 then Some ''PUT'' else opt_customrequest curl),
                opt_post = (if pf \<noteq> 0 then opt_post curl else 1),
                opt_useragent =
                  Some (''librequests/0.1 '' @ sysname w @ ''/'' @ release w),
                info_response_code = info_response_code curl\<rparr>"
  from assms have flag: "pf = 0 \<or> pf = 1" and
    "add_faults ?F
       (exec_bind (curl_easy_perform w ?cfg req)
          (\<lambda>(rc, curl, req). ok (curl, req\<lparr>code := info_response_code curl\<rparr>)))
     = Inr (fs, c', r')"
    unfolding requests_pt_eq by (simp_all split: if_splits del: upto.simps)
  then obtain g where
    "exec_bind (curl_easy_perform w ?cfg req)
          (\<lambda>(rc, curl, req). ok (curl, req\<lparr>code := info_response_code curl\<rparr>))
     = Inr (g, c', r')"
    unfolding add_faults_Inr by blast
  then obtain rc mid where
    d: "deliver w (chunks (respond w ?cfg)) req = Inr (g, rc, mid)" and
    c: "c' = ?cfg\<lparr>info_response_code := response_code (respond w ?cfg)\<rparr>" and
    r: "r' = mid\<lparr>code := response_code (respond w ?cfg)\<rparr>"
    by (subst (asm) transfer_Inr) auto
  have cfg_eq: "c'\<lparr>info_response_code := info_response_code curl\<rparr> = ?cfg"
    by (simp add: c)
  show "\<exists>f2 rc mid.
     deliver w (chunks (respond w (c'\<lparr>info_response_code := info_response_code curl\<rparr>))) req
       = Inr (f2, rc, mid) \<and>
     r' = mid\<lparr>code := response_code (respond w (c'\<lparr>info_response_code := info_response_code curl\<rparr>))\<rparr> \<and>
     info_response_code c' =
       response_code (respond w (c'\<lparr>info_response_code := info_response_code curl\<rparr>))"
    unfolding cfg_eq using d r by (auto simp: c)
  show "opt_url c' = url req" by (simp add: c)
  show "opt_postfields c' =
           (case data of Some d \<Rightarrow> Some (snd (url_encode w curl d ds))
            | None \<Rightarrow> opt_postfields curl)" by (simp add: c)
  show "opt_httpheader c' =
           (case data of
              None \<Rightarrow> [''Content-Length: 0'']
            | Some d \<Rightarrow> (case hdrs of None \<Rightarrow> opt_httpheader curl | Some h \<Rightarrow> []))
           @ (case hdrs of None \<Rightarrow> []
              | Some h \<Rightarrow> map (\<lambda>j. snd (rd w ''headers'' h j)) [0..hs - 1])" by (simp add: c)
  show "opt_customrequest c' = (if pf \<noteq> 0 then Some ''PUT'' else opt_customrequest curl)"
    by (simp add: c)
  show "opt_post c' = (if pf \<noteq> 0 then opt_post curl else 1)" by (simp add: c)
  show "opt_useragent c' = Some (''librequests/0.1 '' @ sysname w @ ''/'' @ release w)"
    by (simp add: c)
  show "pf = 0 \<or> pf = 1" by (rule flag)
qed

lemma requests_pt_Inl:
  assumes "requests_pt w curl req data ds hdrs hs pf = Inl e"
  shows "e = AssertionFailed ''ERROR: Memory allocation failed'' \<or>
         e = AssertionFailed ''ERROR: Invalid PUT request flag'' \<or>
         (e = AssertionFailed ''ERROR: Data size must be even'' \<and> data \<noteq> None \<and> ds mod 2 \<noteq> 0)"
  using assms unfolding requests_pt_eq
  by (auto simp: add_faults_Inl split: if_splits dest: transfer_Inl simp del: upto.simps)

subsection \<open>The loops of \<open>url_encode\<close>\<close>

lemma total_loop_stop: "\<not> i < n \<Longrightarrow> total_loop w data n i acc = acc"
  by (subst total_loop.simps) simp

lemma total_loop_step:
  "i < n \<Longrightarrow>
   total_loop w data n i acc =
     total_loop w data n (i + 1)
       (fst acc @ fst (rd w ''data'' data i), snd acc + length (snd (rd w ''data'' data i)))"
  by (subst total_loop.simps) (simp add: strlen_def split: prod.splits)

lemma total_loop_eq:
  assumes "int (length data) = n"
  shows "0 \<le> i \<Longrightarrow> i \<le> n \<Longrightarrow>
    total_loop w data n i acc = (fst acc, snd acc + sum_list (map length (drop (nat i) data)))"
proof (induction "nat (n - i)" arbitrary: i acc rule: less_induct)
  case less
  show ?case
  proof (cases "i < n")
    case False
    with less.prems assms show ?thesis by (simp add: total_loop_stop)
  next
    case True
    have m: "nat (n - (i + 1)) < nat (n - i)" using True by simp
    have r: "rd w ''data'' data i = ([], data ! nat i)"
      using True less.prems assms by (simp add: rd_def)
    have d: "drop (nat i) data = data ! nat i # drop (nat (i + 1)) data"
      using True less.prems assms
      by (simp add: Cons_nth_drop_Suc nat_add_distrib)
    from less.hyps[OF m, of "(fst acc, snd acc + length (data ! nat i))"] less.prems True
    show ?thesis
      by (simp add: total_loop_step[OF True] r d)
  qed
qed

lemma pair_loop_stop: "\<not> i < n \<Longrightarrow> pair_loop w data n ts i acc = acc"
  by (subst pair_loop.simps) simp

lemma pair_loop_step:
  assumes "i < n"
  shows "pair_loop w data n ts i acc = pair_loop w data n ts (i + 2) (pair_step w data ts i acc)"
  using assms
  by (subst pair_loop.simps)
    (simp add: Let_def snprintf_def strncat_def strcat_def strlen_def pair_step_def
       pair_term_def split: prod.splits)

lemma pair_loop_faults_mono:
  "set (fst acc) \<subseteq> set (fst (pair_loop w data n ts i acc))"
proof (induction "nat (n - i)" arbitrary: i acc rule: less_induct)
  case less
  show ?case
  proof (cases "i < n")
    case False
    then show ?thesis by (simp add: pair_loop_stop)
  next
    case True
    have "nat (n - (i + 2)) < nat (n - i)" using True by simp
    from less[OF this, of "pair_step w data ts i acc"] show ?thesis
      unfolding pair_loop_step[OF True] by (auto simp: pair_step_def)
  qed
qed

lemma pair_loop_reads_past_end:
  assumes "int (length data) = n" "odd (n - i)" "0 \<le> i" "i < n"
  shows "OutOfBounds ''data'' (length data) (nat n) \<in> set (fst (pair_loop w data n ts i acc))"
  using assms(2-)
proof (induction "nat (n - i)" arbitrary: i acc rule: less_induct)
  case less
  show ?case
  proof (cases "i + 1 = n")
    case True
    have "rd w ''data'' data (i + 1) = ([OutOfBounds ''data'' (length data) (nat n)], wild w)"
      using True assms(1) by (simp add: rd_def)
    then have "OutOfBounds ''data'' (length data) (nat n)
                 \<in> set (fst (pair_step w data ts i acc))"
      by (simp add: pair_step_def)
    then show ?thesis
      using pair_loop_faults_mono[of "pair_step w data ts i acc" w data n ts "i + 2"]
      unfolding pair_loop_step[OF less.prems(3)] by blast
  next
    case False
    with less.prems have lt: "i + 2 < n" by presburger
    have m: "nat (n - (i + 2)) < nat (n - i)" using less.prems by simp
    have o: "odd (n - (i + 2))" using less.prems by simp
    from less.hyps[OF m o _ lt] less.prems show ?thesis
      unfolding pair_loop_step[OF less.prems(3)] by simp
  qed
qed

lemma url_encode_reads_past_end:
  assumes "int (length data) = n" "odd n" "1 \<le> n"
  shows "OutOfBounds ''data'' (length data) (nat n) \<in> set (fst (url_encode w curl data n))"
proof -
  have "OutOfBounds ''data'' (length data) (nat n)
          \<in> set (fst (pair_loop w data n ts 0 acc))" for ts acc
    using assms by (intro pair_loop_reads_past_end) auto
  then show ?thesis
    by (auto simp: url_encode_def Let_def split: prod.splits) (metis fst_conv)
qed

lemma join_pairs_amp:
  "even (length xs) \<Longrightarrow> (if xs = [] then [] else ''&'' @ join_pairs xs) = amp_pairs xs"
  by (induction xs rule: amp_pairs.induct) auto

lemma length_amp_pairs:
  "even (length xs) \<Longrightarrow> length (amp_pairs xs) = sum_list (map length xs) + length xs"
  by (induction xs rule: amp_pairs.induct) auto

lemma length_join_pairs:
  assumes "even (length xs)" "xs \<noteq> []"
  shows "length (join_pairs xs) = sum_list (map length xs) + length xs - 1"
proof -
  from assms obtain k v rest where xs: "xs = k # v # rest" and ev: "even (length rest)"
    by (cases xs rule: join_pairs.cases) auto
  show ?thesis
    using join_pairs_amp[OF ev] length_amp_pairs[OF ev]
    by (simp add: xs split: if_splits)
qed

lemma pair_loop_string:
  assumes "int (length data) = n" "even n"
  shows "even i \<Longrightarrow> 0 \<le> i \<Longrightarrow> i \<le> n \<Longrightarrow>
    snd (pair_loop w data n ts i acc) =
      snd acc @ (if i = 0 then join_pairs data else amp_pairs (drop (nat i) data))"
proof (induction "nat (n - i)" arbitrary: i acc rule: less_induct)
  case less
  show ?case
  proof (cases "i < n")
    case False
    with less.prems assms have "i = n" by simp
    then show ?thesis using False assms by (cases data) (auto simp: pair_loop_stop)
  next
    case True
    with less.prems assms have lt: "i + 1 < n" by presburger
    have m: "nat (n - (i + 2)) < nat (n - i)" using True by simp
    have r0: "rd w ''data'' data i = ([], data ! nat i)"
      using True less.prems assms by (simp add: rd_def)
    have r1: "rd w ''data'' data (i + 1) = ([], data ! nat (i + 1))"
      using lt less.prems assms by (simp add: rd_def)
    have d: "drop (nat i) data = data ! nat i # data ! nat (i + 1) # drop (nat (i + 2)) data"
    proof -
      have a: "nat i < length data" "nat (i + 1) < length data" using lt less.prems assms by auto
      have b: "Suc (nat i) = nat (i + 1)" "Suc (nat (i + 1)) = nat (i + 2)"
        using less.prems by auto
      show ?thesis
        using Cons_nth_drop_Suc[OF a(1)] Cons_nth_drop_Suc[OF a(2)] unfolding b by simp
    qed
    have ev: "even (length (drop (nat (i + 2)) data))"
    proof -
      have "int (length (drop (nat (i + 2)) data)) = n - (i + 2)"
        using lt less.prems assms by auto
      moreover have "even (n - (i + 2))" using less.prems assms by simp
      ultimately show ?thesis by (metis even_of_nat)
    qed
    have IH: "snd (pair_loop w data n ts (i + 2) (pair_step w data ts i acc)) =
              snd (pair_step w data ts i acc) @ amp_pairs (drop (nat (i + 2)) data)"
      using less.hyps[OF m, of "pair_step w data ts i acc"] less.prems lt by simp
    show ?thesis
    proof (cases "i = 0")
      case True
      have "\<exists>k v rest. data = k # v # rest" using d True by simp blast
      then obtain k v rest where dd: "data = k # v # rest" by blast
      have evr: "even (length rest)" using ev True dd by simp
      have j: "join_pairs data = k @ ''='' @ v @ amp_pairs rest"
        using join_pairs_amp[OF evr] by (simp add: dd)
      show ?thesis
        unfolding pair_loop_step[OF \<open>i < n\<close>] IH
        using True by (simp add: pair_step_def pair_term_def j) (simp add: dd rd_def)
    next
      case False
      then show ?thesis
        unfolding pair_loop_step[OF True] IH
        by (simp add: pair_step_def pair_term_def r0 r1 d)
    qed
  qed
qed

lemma url_encode_even:
  assumes "int (length data) = n" "even n" "2 \<le> n"
  shows "snd (url_encode w curl data n) =
           concat (map escape_byte
             (snprintf (junk w) (sum_list (map length data)) [] @ join_pairs data))"
    and "OutOfBounds ''encoded'' (sum_list (map length data))
           (length (snprintf (junk w) (sum_list (map length data)) []) +
            (sum_list (map length data) + length data - 1))
         \<in> set (fst (url_encode w curl data n))"
proof -
  let ?ts = "sum_list (map length data)"
  let ?e0 = "snprintf (junk w) ?ts []"
  have t: "total_loop w data n 0 ([], 0) = ([], ?ts)"
    using total_loop_eq[OF assms(1), of 0 w "([], 0)"] assms by simp
  obtain f1 e where p: "pair_loop w data n ?ts 0 ([], ?e0) = (f1, e)"
    by (cases "pair_loop w data n ?ts 0 ([], ?e0)")
  have e: "e = ?e0 @ join_pairs data"
    using pair_loop_string[OF assms(1,2), of 0 w ?ts "([], ?e0)"] assms p by simp
  have ne: "data \<noteq> []" "even (length data)" using assms by auto
  have len: "length e = length ?e0 + (?ts + length data - 1)"
    using length_join_pairs[OF ne(2,1)] e by simp
  have ue: "url_encode w curl data n =
          (f1 @ fst (strlen_in ''encoded'' ?ts e), curl_easy_escape curl e (length e))"
    by (simp add: url_encode_def t p Let_def strlen_in_def split: prod.splits)
  show "snd (url_encode w curl data n) = concat (map escape_byte (?e0 @ join_pairs data))"
    by (simp add: ue curl_easy_escape_def e)
  have "?ts \<le> length e" using len ne by (cases data) auto
  then show "OutOfBounds ''encoded'' ?ts (length ?e0 + (?ts + length data - 1))
         \<in> set (fst (url_encode w curl data n))"
    by (simp add: ue strlen_in_def len)
qed

lemma url_encode_zero:
  "url_encode w curl data 0 =
     ([OutOfBounds ''encoded'' 0 (length (junk w))],
      curl_easy_escape curl (junk w) (length (junk w)))"
  by (simp add: url_encode_def total_loop.simps[of _ _ 0 0] pair_loop.simps[of _ _ 0 _ 0]
        snprintf_def strlen_in_def Let_def)


section \<open>The claims\<close>

subsection \<open>C1: the write callback accumulates the body\<close>

text \<open>
  C1 (the code departs from it). Let a chunk \<open>c\<close> hold a NUL byte, let the two
  allocations of the callback succeed, and let the text of the context be no longer than
  its size. The callback reserves room for all \<open>length c\<close> bytes, adds \<open>length c\<close> to the
  size and returns \<open>length c\<close>, but \<^verbatim>\<open>strndup\<close> and \<^verbatim>\<open>strcat\<close> append only the bytes of
  \<open>c\<close> that precede its first NUL: fewer than \<open>length c\<close> bytes reach the text, and
  afterwards the size exceeds the length of the text.
\<close>

theorem callback_truncates_at_nul:
  assumes "can_alloc w (req_size r + length c + 1)"
    and "can_alloc w (length (takeWhile (\<lambda>x. x \<noteq> NUL) c) + 1)"
    and "NUL \<in> set c"
    and "length (req_text r) \<le> req_size r"
  shows "callback w c 1 (length c) r =
           Inr ([], length c,
                r\<lparr>req_text := req_text r @ takeWhile (\<lambda>x. x \<noteq> NUL) c,
                  req_size := req_size r + length c\<rparr>)
       \<and> length (takeWhile (\<lambda>x. x \<noteq> NUL) c) < length c
       \<and> length (req_text r @ takeWhile (\<lambda>x. x \<noteq> NUL) c) < req_size r + length c"
proof -
  have "dropWhile (\<lambda>x. x \<noteq> NUL) c \<noteq> []"
    using assms(3) by (auto simp: dropWhile_eq_Nil_conv)
  moreover have "length c = length (takeWhile (\<lambda>x. x \<noteq> NUL) c)
                   + length (dropWhile (\<lambda>x. x \<noteq> NUL) c)"
    by (metis length_append takeWhile_dropWhile_id)
  ultimately have short: "length (takeWhile (\<lambda>x. x \<noteq> NUL) c) < length c"
    by simp
  have dup: "strndup c (length c) = takeWhile (\<lambda>x. x \<noteq> NUL) c"
    by (simp add: strndup_def)
  have cb: "callback w c 1 (length c) r =
           Inr ([], length c,
                r\<lparr>req_text := req_text r @ takeWhile (\<lambda>x. x \<noteq> NUL) c,
                  req_size := req_size r + length c\<rparr>)"
    using assms(1,2,4) short
    by (simp add: callback_def Let_def strcat_def realloc_def dup strlen_def)
  show ?thesis using cb short assms(4) by simp
qed

text \<open>The failing input: the three bytes \<^verbatim>\<open>a\<close>, NUL, \<^verbatim>\<open>b\<close> arrive in a fresh context.
  One byte is appended, the size becomes 3 and 3 is returned.\<close>

theorem callback_truncates_at_nul_witness:
  "can_alloc host (req_size ctx + length [CHR ''a'', NUL, CHR ''b''] + 1)
   \<and> can_alloc host (length (takeWhile (\<lambda>x. x \<noteq> NUL) [CHR ''a'', NUL, CHR ''b'']) + 1)
   \<and> NUL \<in> set [CHR ''a'', NUL, CHR ''b'']
   \<and> length (req_text ctx) \<le> req_size ctx
   \<and> callback host [CHR ''a'', NUL, CHR ''b''] 1 3 ctx
       = Inr ([], 3, ctx\<lparr>req_text := ''a'', req_size := 3\<rparr>)
   \<and> callback host [CHR ''a'', NUL, CHR ''b''] 1 3 ctx
       \<noteq> Inr ([], 3, ctx\<lparr>req_text := req_text ctx @ [CHR ''a'', NUL, CHR ''b''],
                            req_size := req_size ctx + 3\<rparr>)
   \<and> length (req_text (ctx\<lparr>req_text := ''a'', req_size := 3\<rparr>))
       < req_size (ctx\<lparr>req_text := ''a'', req_size := 3\<rparr>)"
proof -
  have a: "can_alloc host (req_size ctx + length [CHR ''a'', NUL, CHR ''b''] + 1)"
    and b: "can_alloc host (length (takeWhile (\<lambda>x. x \<noteq> NUL) [CHR ''a'', NUL, CHR ''b'']) + 1)"
    by (simp_all add: host_def)
  have c: "NUL \<in> set [CHR ''a'', NUL, CHR ''b'']" by simp
  have d: "length (req_text ctx) \<le> req_size ctx" by (simp add: ctx_def)
  have t: "takeWhile (\<lambda>x. x \<noteq> NUL) [CHR ''a'', NUL, CHR ''b''] = ''a''"
    by (simp add: NUL_def)
  have n: "[CHR ''a'', NUL, CHR ''b''] \<noteq> ''a''" by simp
  from callback_truncates_at_nul[OF a b c d]
  have "callback host [CHR ''a'', NUL, CHR ''b''] 1 3 ctx
          = Inr ([], 3, ctx\<lparr>req_text := req_text ctx @ ''a'', req_size := req_size ctx + 3\<rparr>)"
    unfolding t by (simp add: eval_nat_numeral)
  then have e: "callback host [CHR ''a'', NUL, CHR ''b''] 1 3 ctx
          = Inr ([], 3, ctx\<lparr>req_text := ''a'', req_size := 3\<rparr>)"
    by (simp add: ctx_def)
  show ?thesis using a b c d e by (simp add: ctx_def NUL_def)
qed

text \<open>On chunks of text the callback does accumulate. On a host whose allocations
  succeed, let the engine hand the callback the chunks \<open>cs\<close>, none of which holds a NUL
  byte, starting from a context whose size is the length of its text (as
  \<open>requests_init\<close> leaves it). Then every invocation, on the chunk \<open>c\<close> that follows the
  chunks \<open>pre\<close>, appends exactly the bytes of \<open>c\<close>, adds \<open>length c\<close> to the size and
  returns \<open>length c\<close>; the transfer ends with the text extended by all the chunks in
  order, and the size is the length of the text throughout.\<close>

lemma callback_accumulates_text:
  assumes "\<forall>n. can_alloc w n"
    and "\<forall>c \<in> set cs. NUL \<notin> set c"
    and "req_size r = length (req_text r)"
  shows "(\<forall>pre c post. cs = pre @ c # post \<longrightarrow>
            callback w c 1 (length c)
              (r\<lparr>req_text := req_text r @ concat pre,
                 req_size := length (req_text r @ concat pre)\<rparr>)
            = Inr ([], length c,
                   r\<lparr>req_text := req_text r @ concat pre @ c,
                      req_size := length (req_text r @ concat pre @ c)\<rparr>))
       \<and> deliver w cs r =
           Inr ([], 0, r\<lparr>req_text := req_text r @ concat cs,
                          req_size := length (req_text r @ concat cs)\<rparr>)"
proof (intro conjI allI impI)
  fix pre c post
  assume split: "cs = pre @ c # post"
  let ?r = "r\<lparr>req_text := req_text r @ concat pre,
               req_size := length (req_text r @ concat pre)\<rparr>"
  have nul: "NUL \<notin> set c" using assms(2) split by simp
  have "callback w c 1 (length c) ?r =
          Inr ([], length c,
               ?r\<lparr>req_text := req_text ?r @ c, req_size := req_size ?r + length c\<rparr>)"
    using assms(1) nul by (intro callback_text) simp_all
  then show "callback w c 1 (length c) ?r =
          Inr ([], length c,
               r\<lparr>req_text := req_text r @ concat pre @ c,
                  req_size := length (req_text r @ concat pre @ c)\<rparr>)"
    by simp
next
  show "deliver w cs r =
          Inr ([], 0, r\<lparr>req_text := req_text r @ concat cs,
                         req_size := length (req_text r @ concat cs)\<rparr>)"
    using deliver_text[OF assms(1,2,3)] assms(3) by simp
qed

text \<open>The chunks \<^verbatim>\<open>"ab"\<close>, \<^verbatim>\<open>""\<close>, \<^verbatim>\<open>"cde"\<close> leave the text \<^verbatim>\<open>"abcde"\<close> and the size 5.\<close>

lemma callback_accumulates_text_example:
  "deliver host [''ab'', [], ''cde''] ctx
     = Inr ([], 0, ctx\<lparr>req_text := ''abcde'', req_size := 5\<rparr>)"
  by code_simp

subsection \<open>C2: the pairs are joined, then escaped as a whole\<close>

text \<open>
  C2 (the code departs from it). For an array of \<open>data_size\<close> strings, \<open>data_size\<close> even
  and at least 2, \<open>url_encode\<close> builds \<^verbatim>\<open>k0=v0&k1=v1&...\<close> in \<^verbatim>\<open>encoded\<close> and escapes the
  whole of it, but \<^verbatim>\<open>encoded\<close> is declared with \<open>total_size\<close> bytes, the sum of the
  lengths of the strings, and the joined string with its terminator needs \<open>data_size\<close>
  bytes more: the code stores and reads past the end of the array, up to the index
  shown. When \<open>total_size\<close> is 0 nothing initialises the array, and the joined string
  follows whatever the memory holds (\<open>junk w\<close>).
\<close>

theorem url_encode_overruns_encoded:
  assumes "int (length data) = data_size" and "even data_size" and "2 \<le> data_size"
    and "total_size = sum_list (map strlen data)"
  shows "OutOfBounds ''encoded'' total_size
           (length (snprintf (junk w) total_size []) + (total_size + length data - 1))
         \<in> set (fst (url_encode w curl data data_size))
       \<and> snd (url_encode w curl data data_size) =
           curl_easy_escape curl (snprintf (junk w) total_size [] @ join_pairs data)
             (length (snprintf (junk w) total_size [] @ join_pairs data))"
proof -
  have ts: "total_size = sum_list (map length data)"
    using assms(4) by (simp add: strlen_def[abs_def])
  show ?thesis
    using url_encode_even[OF assms(1,2,3), of w curl]
    by (simp add: ts curl_easy_escape_def)
qed

text \<open>The failing input \<^verbatim>\<open>{"k", "v"}\<close>: four bytes, \<^verbatim>\<open>k=v\<close> and the terminator, go into
  an array of two; the last one has index 3.\<close>

theorem url_encode_overruns_encoded_witness:
  "int (length [''k'', ''v'']) = 2 \<and> even (2::int) \<and> (2::int) \<le> 2
   \<and> (2::nat) = sum_list (map strlen [''k'', ''v''])
   \<and> OutOfBounds ''encoded'' 2 3 \<in> set (fst (url_encode host curl_easy_init [''k'', ''v''] 2))
   \<and> snd (url_encode host curl_easy_init [''k'', ''v''] 2) = ''k%3Dv''"
proof -
  have a: "int (length [''k'', ''v'']) = 2" by simp
  have b: "(2::nat) = sum_list (map strlen [''k'', ''v''])" by (simp add: strlen_def)
  have e: "curl_easy_escape curl_easy_init ''k=v'' 3 = ''k%3Dv''"
    by (simp add: curl_easy_escape_def escape_byte_def unreserved_def hex_digit_def)
  from url_encode_overruns_encoded[OF a _ _ b, of host curl_easy_init] e
  show ?thesis using a b by (simp add: snprintf_def strlen_def eval_nat_numeral)
qed

subsection \<open>C3: the zero Content-Length header\<close>

text \<open>
  C3 (as amended). When a POST or PUT call returns, the header list of the request is:
  \<^verbatim>\<open>Content-Length: 0\<close> exactly when the caller supplied no body data, whether or not
  custom headers were supplied, followed by the custom headers in input order. (With
  body data and no custom headers the call leaves the handle's header list as it was.)
\<close>

theorem content_length_zero_iff_no_data:
  assumes "requests_pt w curl req data data_size headers headers_size put_flag
             = Inr (fs, curl', req')"
  shows "opt_httpheader curl' =
           (case data of
              None \<Rightarrow> [''Content-Length: 0'']
            | Some d \<Rightarrow> (case headers of None \<Rightarrow> opt_httpheader curl | Some h \<Rightarrow> []))
           @ (case headers of
                None \<Rightarrow> []
              | Some h \<Rightarrow> map (\<lambda>i. snd (rd w ''headers'' h i)) [0..headers_size - 1])"
  using requests_pt_Inr(4)[OF assms] .

text \<open>The four combinations, on a fresh handle: no data and no headers, no data and one
  header, data and one header, data and no headers.\<close>

lemma pt_runs:
  "requests_pt host curl_easy_init ctx None 0 None 0 0 =
     Inr ([],
       \<lparr>opt_url = Some ''http://example.org/'', opt_writefunction = True,
        opt_writedata = True, opt_postfields = None,
        opt_httpheader = [''Content-Length: 0''], opt_customrequest = None, opt_post = 1,
        opt_useragent = Some ''librequests/0.1 Linux/6.1'', info_response_code = 200\<rparr>,
       \<lparr>code = 200, url = Some ''http://example.org/'', req_text = ''abcde'', req_size = 5\<rparr>)"
  "requests_pt host curl_easy_init ctx None 0 (Some [''X-A: 1'']) 1 0 =
     Inr ([],
       \<lparr>opt_url = Some ''http://example.org/'', opt_writefunction = True,
        opt_writedata = True, opt_postfields = None,
        opt_httpheader = [''Content-Length: 0'', ''X-A: 1''], opt_customrequest = None,
        opt_post = 1, opt_useragent = Some ''librequests/0.1 Linux/6.1'',
        info_response_code = 200\<rparr>,
       \<lparr>code = 200, url = Some ''http://example.org/'', req_text = ''abcde'', req_size = 5\<rparr>)"
  "requests_pt host curl_easy_init ctx (Some [''k'', ''v'']) 2 None 0 1 =
     Inr ([OutOfBounds ''encoded'' 2 3, OutOfBounds ''encoded'' 2 3],
       \<lparr>opt_url = Some ''http://example.org/'', opt_writefunction = True,
        opt_writedata = True, opt_postfields = Some ''k%3Dv'',
        opt_httpheader = [], opt_customrequest = Some ''PUT'', opt_post = 0,
        opt_useragent = Some ''librequests/0.1 Linux/6.1'', info_response_code = 200\<rparr>,
       \<lparr>code = 200, url = Some ''http://example.org/'', req_text = ''abcde'', req_size = 5\<rparr>)"
  "requests_pt host curl_easy_init ctx (Some [''k'', ''v'']) 2 None 0 0 =
     Inr ([OutOfBounds ''encoded'' 2 3, OutOfBounds ''encoded'' 2 3],
       \<lparr>opt_url = Some ''http://example.org/'', opt_writefunction = True,
        opt_writedata = True, opt_postfields = Some ''k%3Dv'',
        opt_httpheader = [], opt_customrequest = None, opt_post = 1,
        opt_useragent = Some ''librequests/0.1 Linux/6.1'', info_response_code = 200\<rparr>,
       \<lparr>code = 200, url = Some ''http://example.org/'', req_text = ''abcde'', req_size = 5\<rparr>)"
  by code_simp+

theorem content_length_zero_iff_no_data_witness:
  "requests_pt host curl_easy_init ctx None 0 (Some [''X-A: 1'']) 1 0 =
     Inr ([],
       \<lparr>opt_url = Some ''http://example.org/'', opt_writefunction = True,
        opt_writedata = True, opt_postfields = None,
        opt_httpheader = [''Content-Length: 0'', ''X-A: 1''], opt_customrequest = None,
        opt_post = 1, opt_useragent = Some ''librequests/0.1 Linux/6.1'',
        info_response_code = 200\<rparr>,
       \<lparr>code = 200, url = Some ''http://example.org/'', req_text = ''abcde'', req_size = 5\<rparr>)
   \<and> [''Content-Length: 0'', ''X-A: 1''] =
       [''Content-Length: 0''] @ map (\<lambda>i. snd (rd host ''headers'' [''X-A: 1''] i)) [0..1 - 1]"
  using content_length_zero_iff_no_data[OF pt_runs(2)] pt_runs(2) by simp

text \<open>C3 as stated fails: with custom headers and no data, the zero-length header is
  attached all the same, at the head of the list (\<^verbatim>\<open>requests_post_headers\<close> with
  \<^verbatim>\<open>data = NULL\<close> and the one header \<^verbatim>\<open>X-A: 1\<close>).\<close>

theorem content_length_with_headers_counterexample:
  "requests_post_headers host curl_easy_init ctx None 0 (Some [''X-A: 1'']) 1 =
     Inr ([],
       \<lparr>opt_url = Some ''http://example.org/'', opt_writefunction = True,
        opt_writedata = True, opt_postfields = None,
        opt_httpheader = [''Content-Length: 0'', ''X-A: 1''], opt_customrequest = None,
        opt_post = 1, opt_useragent = Some ''librequests/0.1 Linux/6.1'',
        info_response_code = 200\<rparr>,
       \<lparr>code = 200, url = Some ''http://example.org/'', req_text = ''abcde'', req_size = 5\<rparr>)"
  by (simp add: requests_post_headers_def pt_runs(2))

subsection \<open>C4: the empty input\<close>

text \<open>
  C4 (the code departs from it). With \<open>data_size = 0\<close> the array \<^verbatim>\<open>encoded\<close> has no
  element, \<^verbatim>\<open>snprintf\<close> with size 0 stores nothing, and \<^verbatim>\<open>strlen(encoded)\<close> reads the
  indeterminate bytes that lie there: \<open>url_encode\<close> returns their escaped form, which is
  the empty string only when the first of them happens to be NUL.
\<close>

theorem url_encode_empty_input:
  "url_encode w curl data 0 =
     ([OutOfBounds ''encoded'' 0 (length (junk w))],
      curl_easy_escape curl (junk w) (length (junk w)))"
  by (rule url_encode_zero)

text \<open>The failing input: no pair at all, on a host whose stack holds \<^verbatim>\<open>X\<close> there.\<close>

theorem url_encode_empty_input_witness:
  "url_encode host curl_easy_init [] 0 = ([OutOfBounds ''encoded'' 0 1], ''X'')"
  using url_encode_empty_input[of host curl_easy_init "[]"]
  by (simp add: host_def curl_easy_escape_def escape_byte_def unreserved_def)

subsection \<open>C5: GET without a URL\<close>

text \<open>
  C5 (as amended). The GET executor fails with the contract violation
  \<^verbatim>\<open>ERROR: No URL provided\<close> exactly when the URL is absent (a NULL pointer), whatever
  the engine and the network would do: no transfer is attempted. A URL that is present
  is not examined; an empty one is handed to the engine like any other.
\<close>

theorem get_requires_url:
  "requests_get w curl req = Inl (AssertionFailed ''ERROR: No URL provided'')
   \<longleftrightarrow> url req = None"
proof
  assume e: "requests_get w curl req = Inl (AssertionFailed ''ERROR: No URL provided'')"
  show "url req = None"
  proof (rule ccontr)
    assume "url req \<noteq> None"
    with e have "AssertionFailed ''ERROR: No URL provided''
                   = AssertionFailed ''ERROR: Memory allocation failed''"
      unfolding requests_get_eq by (auto dest: transfer_Inl)
    then show False by simp
  qed
next
  assume "url req = None"
  then show "requests_get w curl req = Inl (AssertionFailed ''ERROR: No URL provided'')"
    by (simp add: requests_get_eq)
qed

theorem get_requires_url_witness:
  "requests_get host curl_easy_init (ctx\<lparr>url := None\<rparr>)
     = Inl (AssertionFailed ''ERROR: No URL provided'')"
  using get_requires_url[of host curl_easy_init "ctx\<lparr>url := None\<rparr>"] by simp

text \<open>C5 as stated fails on the empty URL: the assertion passes, the transfer is run
  and the executor returns.\<close>

theorem get_empty_url_counterexample:
  "requests_get host curl_easy_init (ctx\<lparr>url := Some []\<rparr>) =
     Inr ([],
       \<lparr>opt_url = Some [], opt_writefunction = True, opt_writedata = True,
        opt_postfields = None, opt_httpheader = [], opt_customrequest = None, opt_post = 0,
        opt_useragent = None, info_response_code = 200\<rparr>,
       \<lparr>code = 200, url = Some [], req_text = ''abcde'', req_size = 5\<rparr>)
   \<and> requests_get host curl_easy_init (ctx\<lparr>url := Some []\<rparr>)
       \<noteq> Inl (AssertionFailed ''ERROR: No URL provided'')"
  by code_simp

subsection \<open>C6: the status code\<close>

text \<open>
  C6 (as amended). A request context is created with status code 0, and the callback
  never changes the status code. An executor invocation that returns has first let the
  transfer run, with the status code untouched, and has then set the status code, once,
  to the response code the engine reports for that transfer, whether the transfer
  succeeded or failed: after a failed transfer the status code is 0 only if the engine
  reports no response code. The text accumulated by the callbacks is left in the
  context.
\<close>

theorem status_code_follows_engine:
  "(requests_init w u = Inr (f0, c0, r0) \<longrightarrow> code r0 = 0)
   \<and> (callback w content sz nmemb r = Inr (f1, n, r1) \<longrightarrow> code r1 = code r)
   \<and> (requests_get w curl req = Inr (fs, curl', req') \<longrightarrow>
        (\<exists>rc mid.
           deliver w
             (chunks (respond w (curl'\<lparr>info_response_code := info_response_code curl\<rparr>))) req
             = Inr (fs, rc, mid)
           \<and> code mid = code req
           \<and> req' = mid\<lparr>code :=
                 response_code
                   (respond w (curl'\<lparr>info_response_code := info_response_code curl\<rparr>))\<rparr>))
   \<and> (requests_pt w curl req data data_size headers headers_size put_flag
         = Inr (gs, curl'', req'') \<longrightarrow>
        (\<exists>f rc mid.
           deliver w
             (chunks (respond w (curl''\<lparr>info_response_code := info_response_code curl\<rparr>))) req
             = Inr (f, rc, mid)
           \<and> code mid = code req
           \<and> req'' = mid\<lparr>code :=
                 response_code
                   (respond w (curl''\<lparr>info_response_code := info_response_code curl\<rparr>))\<rparr>))"
proof (intro conjI impI)
  assume "requests_init w u = Inr (f0, c0, r0)"
  then show "code r0 = 0"
    by (auto simp: requests_init_def Let_def exec_bind_Inr ok_Inr)
next
  assume "callback w content sz nmemb r = Inr (f1, n, r1)"
  then show "code r1 = code r" by (simp add: callback_frame)
next
  assume "requests_get w curl req = Inr (fs, curl', req')"
  from requests_get_Inr[OF this] obtain rc mid where
    d: "deliver w
          (chunks (respond w (curl'\<lparr>info_response_code := info_response_code curl\<rparr>))) req
        = Inr (fs, rc, mid)" and
    r: "req' = mid\<lparr>code :=
          response_code (respond w (curl'\<lparr>info_response_code := info_response_code curl\<rparr>))\<rparr>"
    by blast
  from deliver_frame[OF d] d r
  show "\<exists>rc mid.
           deliver w
             (chunks (respond w (curl'\<lparr>info_response_code := info_response_code curl\<rparr>))) req
             = Inr (fs, rc, mid)
           \<and> code mid = code req
           \<and> req' = mid\<lparr>code :=
                 response_code
                   (respond w (curl'\<lparr>info_response_code := info_response_code curl\<rparr>))\<rparr>"
    by blast
next
  assume "requests_pt w curl req data data_size headers headers_size put_flag
            = Inr (gs, curl'', req'')"
  from requests_pt_Inr(1)[OF this] obtain f rc mid where
    d: "deliver w
          (chunks (respond w (curl''\<lparr>info_response_code := info_response_code curl\<rparr>))) req
        = Inr (f, rc, mid)" and
    r: "req'' = mid\<lparr>code :=
          response_code (respond w (curl''\<lparr>info_response_code := info_response_code curl\<rparr>))\<rparr>"
    by blast
  from deliver_frame[OF d] d r
  show "\<exists>f rc mid.
           deliver w
             (chunks (respond w (curl''\<lparr>info_response_code := info_response_code curl\<rparr>))) req
             = Inr (f, rc, mid)
           \<and> code mid = code req
           \<and> req'' = mid\<lparr>code :=
                 response_code
                   (respond w (curl''\<lparr>info_response_code := info_response_code curl\<rparr>))\<rparr>"
    by blast
qed

text \<open>On the broken connection: the context is created, a callback runs, GET and POST
  return.\<close>

lemma flaky_runs:
  "requests_init flaky (Some ''http://example.org/'') = Inr ([], curl_easy_init, ctx)"
  "callback flaky ''ab'' 1 2 ctx = Inr ([], 2, ctx\<lparr>req_text := ''ab'', req_size := 2\<rparr>)"
  "requests_get flaky curl_easy_init ctx =
     Inr ([],
       \<lparr>opt_url = Some ''http://example.org/'', opt_writefunction = True,
        opt_writedata = True, opt_postfields = None, opt_httpheader = [],
        opt_customrequest = None, opt_post = 0, opt_useragent = None,
        info_response_code = 200\<rparr>,
       \<lparr>code = 200, url = Some ''http://example.org/'', req_text = ''ab'', req_size = 2\<rparr>)"
  "requests_pt flaky curl_easy_init ctx None 0 None 0 0 =
     Inr ([],
       \<lparr>opt_url = Some ''http://example.org/'', opt_writefunction = True,
        opt_writedata = True, opt_postfields = None,
        opt_httpheader = [''Content-Length: 0''], opt_customrequest = None, opt_post = 1,
        opt_useragent = Some ''librequests/0.1 Linux/6.1'', info_response_code = 200\<rparr>,
       \<lparr>code = 200, url = Some ''http://example.org/'', req_text = ''ab'', req_size = 2\<rparr>)"
  "curl_easy_perform flaky
     \<lparr>opt_url = Some ''http://example.org/'', opt_writefunction = True,
      opt_writedata = True, opt_postfields = None, opt_httpheader = [],
      opt_customrequest = None, opt_post = 0, opt_useragent = None,
      info_response_code = 0\<rparr> ctx =
     Inr ([], 18,
       \<lparr>opt_url = Some ''http://example.org/'', opt_writefunction = True,
        opt_writedata = True, opt_postfields = None, opt_httpheader = [],
        opt_customrequest = None, opt_post = 0, opt_useragent = None,
        info_response_code = 200\<rparr>,
       \<lparr>code = 0, url = Some ''http://example.org/'', req_text = ''ab'', req_size = 2\<rparr>)"
  by code_simp+

theorem status_code_follows_engine_witness:
  "requests_init flaky (Some ''http://example.org/'') = Inr ([], curl_easy_init, ctx)
   \<and> code ctx = 0
   \<and> callback flaky ''ab'' 1 2 ctx = Inr ([], 2, ctx\<lparr>req_text := ''ab'', req_size := 2\<rparr>)
   \<and> code (ctx\<lparr>req_text := ''ab'', req_size := 2\<rparr>) = code ctx
   \<and> requests_get flaky curl_easy_init ctx =
       Inr ([],
       \<lparr>opt_url = Some ''http://example.org/'', opt_writefunction = True,
        opt_writedata = True, opt_postfields = None, opt_httpheader = [],
        opt_customrequest = None, opt_post = 0, opt_useragent = None,
        info_response_code = 200\<rparr>,
       \<lparr>code = 200, url = Some ''http://example.org/'', req_text = ''ab'', req_size = 2\<rparr>)
   \<and> (\<exists>rc mid.
         deliver flaky
           (chunks (respond flaky
              ((\<lparr>opt_url = Some ''http://example.org/'', opt_writefunction = True,
        opt_writedata = True, opt_postfields = None, opt_httpheader = [],
        opt_customrequest = None, opt_post = 0, opt_useragent = None,
        info_response_code = 200\<rparr>)\<lparr>info_response_code := info_response_code curl_easy_init\<rparr>))) ctx
           = Inr ([], rc, mid)
         \<and> code mid = code ctx
         \<and> \<lparr>code = 200, url = Some ''http://example.org/'', req_text = ''ab'', req_size = 2\<rparr> = mid\<lparr>code :=
               response_code (respond flaky
                 ((\<lparr>opt_url = Some ''http://example.org/'', opt_writefunction = True,
        opt_writedata = True, opt_postfields = None, opt_httpheader = [],
        opt_customrequest = None, opt_post = 0, opt_useragent = None,
        info_response_code = 200\<rparr>)\<lparr>info_response_code := info_response_code curl_easy_init\<rparr>))\<rparr>)
   \<and> requests_pt flaky curl_easy_init ctx None 0 None 0 0 =
       Inr ([],
       \<lparr>opt_url = Some ''http://example.org/'', opt_writefunction = True,
        opt_writedata = True, opt_postfields = None, opt_httpheader = [''Content-Length: 0''],
        opt_customrequest = None, opt_post = 1, opt_useragent = Some ''librequests/0.1 Linux/6.1'',
        info_response_code = 200\<rparr>,
       \<lparr>code = 200, url = Some ''http://example.org/'', req_text = ''ab'', req_size = 2\<rparr>)
   \<and> (\<exists>f rc mid.
         deliver flaky
           (chunks (respond flaky
              ((\<lparr>opt_url = Some ''http://example.org/'', opt_writefunction = True,
        opt_writedata = True, opt_postfields = None, opt_httpheader = [''Content-Length: 0''],
        opt_customrequest = None, opt_post = 1, opt_useragent = Some ''librequests/0.1 Linux/6.1'',
        info_response_code = 200\<rparr>)\<lparr>info_response_code := info_response_code curl_easy_init\<rparr>))) ctx
           = Inr (f, rc, mid)
         \<and> code mid = code ctx
         \<and> \<lparr>code = 200, url = Some ''http://example.org/'', req_text = ''ab'', req_size = 2\<rparr> = mid\<lparr>code :=
               response_code (respond flaky
                 ((\<lparr>opt_url = Some ''http://example.org/'', opt_writefunction = True,
        opt_writedata = True, opt_postfields = None, opt_httpheader = [''Content-Length: 0''],
        opt_customrequest = None, opt_post = 1, opt_useragent = Some ''librequests/0.1 Linux/6.1'',
        info_response_code = 200\<rparr>)\<lparr>info_response_code := info_response_code curl_easy_init\<rparr>))\<rparr>)"
  using status_code_follows_engine[of flaky "Some ''http://example.org/''" "[]"
      curl_easy_init ctx "''ab''" 1 2 ctx "[]" 2 "ctx\<lparr>req_text := ''ab'', req_size := 2\<rparr>"
      curl_easy_init ctx "[]"
      "\<lparr>opt_url = Some ''http://example.org/'', opt_writefunction = True,
        opt_writedata = True, opt_postfields = None, opt_httpheader = [],
        opt_customrequest = None, opt_post = 0, opt_useragent = None,
        info_response_code = 200\<rparr>"
      "\<lparr>code = 200, url = Some ''http://example.org/'', req_text = ''ab'', req_size = 2\<rparr>"
      None 0 None 0 0 "[]"
      "\<lparr>opt_url = Some ''http://example.org/'', opt_writefunction = True,
        opt_writedata = True, opt_postfields = None, opt_httpheader = [''Content-Length: 0''],
        opt_customrequest = None, opt_post = 1, opt_useragent = Some ''librequests/0.1 Linux/6.1'',
        info_response_code = 200\<rparr>"
      "\<lparr>code = 200, url = Some ''http://example.org/'', req_text = ''ab'', req_size = 2\<rparr>"]
    flaky_runs(1-4)
  by blast

text \<open>C6 as stated fails on a transfer that breaks after the status line: the transfer
  fails (\<^verbatim>\<open>curl_easy_perform\<close> returns 18), the two bytes received stay in the text, and
  the status code is the 200 that the engine reports, not 0.\<close>

theorem failed_transfer_status_counterexample:
  "curl_easy_perform flaky
     \<lparr>opt_url = Some ''http://example.org/'', opt_writefunction = True,
      opt_writedata = True, opt_postfields = None, opt_httpheader = [],
      opt_customrequest = None, opt_post = 0, opt_useragent = None,
      info_response_code = 0\<rparr> ctx =
     Inr ([], 18,
       \<lparr>opt_url = Some ''http://example.org/'', opt_writefunction = True,
        opt_writedata = True, opt_postfields = None, opt_httpheader = [],
        opt_customrequest = None, opt_post = 0, opt_useragent = None,
        info_response_code = 200\<rparr>,
       \<lparr>code = 0, url = Some ''http://example.org/'', req_text = ''ab'', req_size = 2\<rparr>)
   \<and> requests_get flaky curl_easy_init ctx =
     Inr ([],
       \<lparr>opt_url = Some ''http://example.org/'', opt_writefunction = True,
        opt_writedata = True, opt_postfields = None, opt_httpheader = [],
        opt_customrequest = None, opt_post = 0, opt_useragent = None,
        info_response_code = 200\<rparr>,
       \<lparr>code = 200, url = Some ''http://example.org/'', req_text = ''ab'', req_size = 2\<rparr>)"
  using flaky_runs(3,5) by simp

subsection \<open>C7: what an executor changes in the context\<close>

text \<open>
  C7. The callback changes neither the URL nor the status code of the context. When an
  executor (GET, or POST/PUT) returns, the URL of the context is the one it had, and
  its text and size are exactly those that the callback invocations of the transfer
  have left (the executor itself only sets the status code); a transfer without a
  chunk leaves text and size as they were.
\<close>

theorem executor_frame:
  "(callback w content sz nmemb r = Inr (f1, n, r1) \<longrightarrow> url r1 = url r \<and> code r1 = code r)
   \<and> deliver w [] req = Inr ([], 0, req)
   \<and> (requests_get w curl req = Inr (fs, curl', req') \<longrightarrow>
        url req' = url req
        \<and> (\<exists>rc mid.
             deliver w
               (chunks (respond w (curl'\<lparr>info_response_code := info_response_code curl\<rparr>))) req
               = Inr (fs, rc, mid)
             \<and> req_text req' = req_text mid \<and> req_size req' = req_size mid))
   \<and> (requests_pt w curl req data data_size headers headers_size put_flag
         = Inr (gs, curl'', req'') \<longrightarrow>
        url req'' = url req
        \<and> (\<exists>f rc mid.
             deliver w
               (chunks (respond w (curl''\<lparr>info_response_code := info_response_code curl\<rparr>))) req
               = Inr (f, rc, mid)
             \<and> req_text req'' = req_text mid \<and> req_size req'' = req_size mid))"
proof (intro conjI impI)
  assume cb: "callback w content sz nmemb r = Inr (f1, n, r1)"
  show "url r1 = url r" "code r1 = code r" using callback_frame[OF cb] by simp_all
next
  show "deliver w [] req = Inr ([], 0, req)" by (simp add: ok_def)
next
  assume g: "requests_get w curl req = Inr (fs, curl', req')"
  from requests_get_Inr[OF g] obtain rc mid where
    d: "deliver w
          (chunks (respond w (curl'\<lparr>info_response_code := info_response_code curl\<rparr>))) req
        = Inr (fs, rc, mid)" and
    r: "req' = mid\<lparr>code :=
          response_code (respond w (curl'\<lparr>info_response_code := info_response_code curl\<rparr>))\<rparr>"
    by blast
  show "url req' = url req" using deliver_frame[OF d] r by simp
  show "\<exists>rc mid.
          deliver w
            (chunks (respond w (curl'\<lparr>info_response_code := info_response_code curl\<rparr>))) req
            = Inr (fs, rc, mid)
          \<and> req_text req' = req_text mid \<and> req_size req' = req_size mid"
    using d r by auto
next
  assume p: "requests_pt w curl req data data_size headers headers_size put_flag
            = Inr (gs, curl'', req'')"
  from requests_pt_Inr(1)[OF p] obtain f rc mid where
    d: "deliver w
          (chunks (respond w (curl''\<lparr>info_response_code := info_response_code curl\<rparr>))) req
        = Inr (f, rc, mid)" and
    r: "req'' = mid\<lparr>code :=
          response_code (respond w (curl''\<lparr>info_response_code := info_response_code curl\<rparr>))\<rparr>"
    by blast
  show "url req'' = url req" using deliver_frame[OF d] r by simp
  show "\<exists>f rc mid.
          deliver w
            (chunks (respond w (curl''\<lparr>info_response_code := info_response_code curl\<rparr>))) req
            = Inr (f, rc, mid)
          \<and> req_text req'' = req_text mid \<and> req_size req'' = req_size mid"
    using d r by auto
qed

lemma host_runs:
  "callback host ''ab'' 1 2 ctx = Inr ([], 2, ctx\<lparr>req_text := ''ab'', req_size := 2\<rparr>)"
  "requests_get host curl_easy_init ctx =
     Inr ([],
       \<lparr>opt_url = Some ''http://example.org/'', opt_writefunction = True,
        opt_writedata = True, opt_postfields = None, opt_httpheader = [],
        opt_customrequest = None, opt_post = 0, opt_useragent = None,
        info_response_code = 200\<rparr>,
       \<lparr>code = 200, url = Some ''http://example.org/'', req_text = ''abcde'', req_size = 5\<rparr>)"
  "deliver host [''ab'', [], ''cde''] ctx =
     Inr ([], 0, ctx\<lparr>req_text := ''abcde'', req_size := 5\<rparr>)"
  "user_agent host = Inr ([], ''librequests/0.1 Linux/6.1'')"
  by code_simp+

theorem executor_frame_witness:
  "callback host ''ab'' 1 2 ctx = Inr ([], 2, ctx\<lparr>req_text := ''ab'', req_size := 2\<rparr>)
   \<and> url (ctx\<lparr>req_text := ''ab'', req_size := 2\<rparr>) = url ctx
   \<and> code (ctx\<lparr>req_text := ''ab'', req_size := 2\<rparr>) = code ctx
   \<and> requests_get host curl_easy_init ctx =
       Inr ([],
       \<lparr>opt_url = Some ''http://example.org/'', opt_writefunction = True,
        opt_writedata = True, opt_postfields = None, opt_httpheader = [],
        opt_customrequest = None, opt_post = 0, opt_useragent = None,
        info_response_code = 200\<rparr>,
       \<lparr>code = 200, url = Some ''http://example.org/'', req_text = ''abcde'', req_size = 5\<rparr>)
   \<and> url (\<lparr>code = 200, url = Some ''http://example.org/'', req_text = ''abcde'', req_size = 5\<rparr>) = url ctx
   \<and> (\<exists>rc mid.
         deliver host
           (chunks (respond host
              ((\<lparr>opt_url = Some ''http://example.org/'', opt_writefunction = True,
        opt_writedata = True, opt_postfields = None, opt_httpheader = [],
        opt_customrequest = None, opt_post = 0, opt_useragent = None,
        info_response_code = 200\<rparr>)\<lparr>info_response_code := info_response_code curl_easy_init\<rparr>))) ctx
           = Inr ([], rc, mid)
         \<and> req_text (\<lparr>code = 200, url = Some ''http://example.org/'', req_text = ''abcde'', req_size = 5\<rparr>) = req_text mid
         \<and> req_size (\<lparr>code = 200, url = Some ''http://example.org/'', req_text = ''abcde'', req_size = 5\<rparr>) = req_size mid)
   \<and> requests_pt host curl_easy_init ctx None 0 None 0 0 =
       Inr ([],
       \<lparr>opt_url = Some ''http://example.org/'', opt_writefunction = True,
        opt_writedata = True, opt_postfields = None, opt_httpheader = [''Content-Length: 0''],
        opt_customrequest = None, opt_post = 1, opt_useragent = Some ''librequests/0.1 Linux/6.1'',
        info_response_code = 200\<rparr>,
       \<lparr>code = 200, url = Some ''http://example.org/'', req_text = ''abcde'', req_size = 5\<rparr>)
   \<and> (\<exists>f rc mid.
         deliver host
           (chunks (respond host
              ((\<lparr>opt_url = Some ''http://example.org/'', opt_writefunction = True,
        opt_writedata = True, opt_postfields = None, opt_httpheader = [''Content-Length: 0''],
        opt_customrequest = None, opt_post = 1, opt_useragent = Some ''librequests/0.1 Linux/6.1'',
        info_response_code = 200\<rparr>)\<lparr>info_response_code := info_response_code curl_easy_init\<rparr>))) ctx
           = Inr (f, rc, mid)
         \<and> req_text (\<lparr>code = 200, url = Some ''http://example.org/'', req_text = ''abcde'', req_size = 5\<rparr>) = req_text mid
         \<and> req_size (\<lparr>code = 200, url = Some ''http://example.org/'', req_text = ''abcde'', req_size = 5\<rparr>) = req_size mid)"
  using executor_frame[of host "''ab''" 1 2 ctx "[]" 2 "ctx\<lparr>req_text := ''ab'', req_size := 2\<rparr>"
      ctx curl_easy_init "[]"
      "\<lparr>opt_url = Some ''http://example.org/'', opt_writefunction = True,
        opt_writedata = True, opt_postfields = None, opt_httpheader = [],
        opt_customrequest = None, opt_post = 0, opt_useragent = None,
        info_response_code = 200\<rparr>"
      "\<lparr>code = 200, url = Some ''http://example.org/'', req_text = ''abcde'', req_size = 5\<rparr>"
      None 0 None 0 0 "[]"
      "\<lparr>opt_url = Some ''http://example.org/'', opt_writefunction = True,
        opt_writedata = True, opt_postfields = None, opt_httpheader = [''Content-Length: 0''],
        opt_customrequest = None, opt_post = 1, opt_useragent = Some ''librequests/0.1 Linux/6.1'',
        info_response_code = 200\<rparr>"
      "\<lparr>code = 200, url = Some ''http://example.org/'', req_text = ''abcde'', req_size = 5\<rparr>"]
    host_runs(1,2) pt_runs(1)
  by blast

subsection \<open>C8: POST and PUT send the same body\<close>

text \<open>
  C8. When \<open>requests_post\<close> and \<open>requests_put\<close> are called with the same handle, context
  and data and both return, the requests they have configured have the same body (the
  result of \<open>url_encode\<close> on the data, when there is data), the same header list, URL
  and user agent. They differ in the method only: POST switches the engine's POST mode
  on and leaves the custom method alone, PUT sets the custom method \<^verbatim>\<open>PUT\<close> and leaves
  the POST mode alone.
\<close>

theorem post_put_same_body:
  assumes "requests_post w curl req data data_size = Inr (fp, cp, rp)"
    and "requests_put w curl req data data_size = Inr (fq, cq, rq)"
  shows "opt_postfields cp = opt_postfields cq
       \<and> opt_postfields cp =
           (case data of Some d \<Rightarrow> Some (snd (url_encode w curl d data_size))
            | None \<Rightarrow> opt_postfields curl)
       \<and> opt_httpheader cp = opt_httpheader cq
       \<and> opt_url cp = opt_url cq
       \<and> opt_useragent cp = opt_useragent cq
       \<and> opt_post cp = 1 \<and> opt_customrequest cp = opt_customrequest curl
       \<and> opt_customrequest cq = Some ''PUT'' \<and> opt_post cq = opt_post curl"
proof -
  note p = requests_pt_Inr[OF assms(1)[unfolded requests_post_def]]
  note q = requests_pt_Inr[OF assms(2)[unfolded requests_put_def]]
  show ?thesis
    by (simp add: p(2-7) q(2-7) del: upto.simps)
qed

theorem post_put_same_body_witness:
  "(\<exists>fp cp rp fq cq rq.
      requests_post host curl_easy_init ctx (Some [''k'', ''v'']) 2 = Inr (fp, cp, rp)
      \<and> requests_put host curl_easy_init ctx (Some [''k'', ''v'']) 2 = Inr (fq, cq, rq)
      \<and> opt_postfields cp = Some ''k%3Dv'' \<and> opt_postfields cq = Some ''k%3Dv''
      \<and> opt_post cp = 1 \<and> opt_customrequest cp = None
      \<and> opt_customrequest cq = Some ''PUT'' \<and> opt_post cq = 0)"
  using post_put_same_body[OF pt_runs(4)[folded requests_post_def]
      pt_runs(3)[folded requests_put_def]]
    pt_runs(4)[folded requests_post_def] pt_runs(3)[folded requests_put_def]
  by (simp add: curl_easy_init_def)

subsection \<open>C9: the user agent\<close>

text \<open>
  C9. Where its allocation succeeds, the user-agent builder returns the fixed literal
  \<^verbatim>\<open>librequests/0.1\<close>, a space, the host's OS name, a slash and the host's OS release.
  Every POST/PUT call that returns has set this string as the user agent of the
  request; a GET call leaves the user-agent option of the handle as it found it.
\<close>

theorem user_agent_attached:
  "(can_alloc w (18 + length (sysname w) + length (release w)) \<longrightarrow>
      user_agent w = Inr ([], ''librequests/0.1'' @ '' '' @ sysname w @ ''/'' @ release w))
   \<and> (requests_pt w curl req data data_size headers headers_size put_flag
         = Inr (fs, curl', req') \<longrightarrow>
        opt_useragent curl'
          = Some (''librequests/0.1'' @ '' '' @ sysname w @ ''/'' @ release w))
   \<and> (requests_get w curl req = Inr (gs, curl'', req'') \<longrightarrow>
        opt_useragent curl'' = opt_useragent curl)"
proof (intro conjI impI)
  assume "can_alloc w (18 + length (sysname w) + length (release w))"
  then show "user_agent w
               = Inr ([], ''librequests/0.1'' @ '' '' @ sysname w @ ''/'' @ release w)"
    by (simp add: user_agent_eq)
next
  assume "requests_pt w curl req data data_size headers headers_size put_flag
            = Inr (fs, curl', req')"
  from requests_pt_Inr(7)[OF this]
  show "opt_useragent curl'
          = Some (''librequests/0.1'' @ '' '' @ sysname w @ ''/'' @ release w)"
    by simp
next
  assume "requests_get w curl req = Inr (gs, curl'', req'')"
  from requests_get_Inr[OF this] obtain x where
    "curl'' = curl\<lparr>opt_url := url req, opt_writefunction := True, opt_writedata := True,
                   info_response_code := x\<rparr>"
    by blast
  then show "opt_useragent curl'' = opt_useragent curl" by simp
qed

theorem user_agent_attached_witness:
  "can_alloc host (18 + length (sysname host) + length (release host))
   \<and> user_agent host = Inr ([], ''librequests/0.1'' @ '' '' @ sysname host @ ''/'' @ release host)
   \<and> user_agent host = Inr ([], ''librequests/0.1 Linux/6.1'')
   \<and> requests_pt host curl_easy_init ctx None 0 None 0 0 =
       Inr ([],
       \<lparr>opt_url = Some ''http://example.org/'', opt_writefunction = True,
        opt_writedata = True, opt_postfields = None, opt_httpheader = [''Content-Length: 0''],
        opt_customrequest = None, opt_post = 1, opt_useragent = Some ''librequests/0.1 Linux/6.1'',
        info_response_code = 200\<rparr>,
       \<lparr>code = 200, url = Some ''http://example.org/'', req_text = ''abcde'', req_size = 5\<rparr>)
   \<and> opt_useragent (\<lparr>opt_url = Some ''http://example.org/'', opt_writefunction = True,
        opt_writedata = True, opt_postfields = None, opt_httpheader = [''Content-Length: 0''],
        opt_customrequest = None, opt_post = 1, opt_useragent = Some ''librequests/0.1 Linux/6.1'',
        info_response_code = 200\<rparr>)
       = Some (''librequests/0.1'' @ '' '' @ sysname host @ ''/'' @ release host)
   \<and> requests_get host curl_easy_init ctx =
       Inr ([],
       \<lparr>opt_url = Some ''http://example.org/'', opt_writefunction = True,
        opt_writedata = True, opt_postfields = None, opt_httpheader = [],
        opt_customrequest = None, opt_post = 0, opt_useragent = None,
        info_response_code = 200\<rparr>,
       \<lparr>code = 200, url = Some ''http://example.org/'', req_text = ''abcde'', req_size = 5\<rparr>)
   \<and> opt_useragent (\<lparr>opt_url = Some ''http://example.org/'', opt_writefunction = True,
        opt_writedata = True, opt_postfields = None, opt_httpheader = [],
        opt_customrequest = None, opt_post = 0, opt_useragent = None,
        info_response_code = 200\<rparr>) = opt_useragent curl_easy_init"
proof -
  have a: "can_alloc host (18 + length (sysname host) + length (release host))"
    by (simp add: host_def)
  show ?thesis
    using user_agent_attached[of host curl_easy_init ctx None 0 None 0 0 "[]"
      "\<lparr>opt_url = Some ''http://example.org/'', opt_writefunction = True,
        opt_writedata = True, opt_postfields = None, opt_httpheader = [''Content-Length: 0''],
        opt_customrequest = None, opt_post = 1, opt_useragent = Some ''librequests/0.1 Linux/6.1'',
        info_response_code = 200\<rparr>"
      "\<lparr>code = 200, url = Some ''http://example.org/'', req_text = ''abcde'', req_size = 5\<rparr>"
      "[]"
      "\<lparr>opt_url = Some ''http://example.org/'', opt_writefunction = True,
        opt_writedata = True, opt_postfields = None, opt_httpheader = [],
        opt_customrequest = None, opt_post = 0, opt_useragent = None,
        info_response_code = 200\<rparr>"
      "\<lparr>code = 200, url = Some ''http://example.org/'', req_text = ''abcde'', req_size = 5\<rparr>"]
      a pt_runs(1) host_runs(2,4)
    by blast
qed

subsection \<open>C10: \<open>url_encode\<close> does not check the parity of its input\<close>

text \<open>
  C10. Given an array of exactly \<open>data_size\<close> strings, \<open>data_size\<close> odd and at least 1,
  \<open>url_encode\<close> raises no error: its second loop reads \<^verbatim>\<open>data[data_size]\<close>, one element
  past the end of the array. The POST/PUT executor rejects the same input with the
  assertion \<^verbatim>\<open>ERROR: Data size must be even\<close> when the data pointer is not NULL (its
  earlier checks passing), and never raises that assertion when the data pointer is
  NULL.
\<close>

theorem url_encode_unguarded:
  assumes "int (length data) = data_size" and "odd data_size" and "1 \<le> data_size"
  shows "OutOfBounds ''data'' (length data) (nat data_size)
           \<in> set (fst (url_encode w curl data data_size))
       \<and> (can_alloc w (18 + length (sysname w) + length (release w))
            \<and> (put_flag = 0 \<or> put_flag = 1) \<longrightarrow>
          requests_pt w curl req (Some data) data_size headers headers_size put_flag
            = Inl (AssertionFailed ''ERROR: Data size must be even''))
       \<and> requests_pt w curl req None data_size headers headers_size put_flag
            \<noteq> Inl (AssertionFailed ''ERROR: Data size must be even'')"
proof (intro conjI impI)
  show "OutOfBounds ''data'' (length data) (nat data_size)
          \<in> set (fst (url_encode w curl data data_size))"
    using assms by (rule url_encode_reads_past_end)
next
  assume "can_alloc w (18 + length (sysname w) + length (release w))
            \<and> (put_flag = 0 \<or> put_flag = 1)"
  moreover have "data_size mod 2 \<noteq> 0" using assms(2) by presburger
  ultimately show "requests_pt w curl req (Some data) data_size headers headers_size put_flag
            = Inl (AssertionFailed ''ERROR: Data size must be even'')"
    unfolding requests_pt_eq by simp
next
  show "requests_pt w curl req None data_size headers headers_size put_flag
            \<noteq> Inl (AssertionFailed ''ERROR: Data size must be even'')"
    using requests_pt_Inl[of w curl req None data_size headers headers_size put_flag
        "AssertionFailed ''ERROR: Data size must be even''"]
    by auto
qed

text \<open>Three strings: \<^verbatim>\<open>data[3]\<close> is read. The executor stops at its assertion.\<close>

theorem url_encode_unguarded_witness:
  "int (length [''a'', ''b'', ''c'']) = 3 \<and> odd (3::int) \<and> (1::int) \<le> 3
   \<and> OutOfBounds ''data'' 3 3
       \<in> set (fst (url_encode host curl_easy_init [''a'', ''b'', ''c''] 3))
   \<and> requests_pt host curl_easy_init ctx (Some [''a'', ''b'', ''c'']) 3 None 0 0
       = Inl (AssertionFailed ''ERROR: Data size must be even'')
   \<and> requests_pt host curl_easy_init ctx None 3 None 0 0
       \<noteq> Inl (AssertionFailed ''ERROR: Data size must be even'')"
proof -
  have a: "int (length [''a'', ''b'', ''c'']) = 3" by simp
  have b: "odd (3::int)" by simp
  have c: "(1::int) \<le> 3" by simp
  have d: "can_alloc host (18 + length (sysname host) + length (release host))"
    by (simp add: host_def)
  have e: "length [''a'', ''b'', ''c''] = 3" "nat 3 = 3" by simp_all
  from url_encode_unguarded[OF a b c, of host curl_easy_init 0 ctx None 0] d
  show ?thesis unfolding e by simp
qed

end
